theory Spec2Isabelle
  imports Complex_Main "HOL-Library.Sublist" "HOL-Library.AList" "HOL-Library.Log_Nat"
begin

section \<open>JavaScript values and arithmetic\<close>

text \<open>
  The purchase-order screen (\<^verbatim>\<open>po_populate.js\<close>, with its request helpers) keeps its state
  in a handful of script-level variables and works on plain objects. A property of
  such an object that the code reads through an arithmetic operator, a comparison or a
  string conversion is a \<open>jsval\<close>: \<^verbatim>\<open>undefined\<close> (an absent property), \<^verbatim>\<open>null\<close>, a
  Number, or a text. A finite Number is an IEEE double, held as the rational it is
  equal to; \<^verbatim>\<open>NaN\<close> and the two infinities are values of their own, and the sign of a
  zero is not kept (the code has no way to see it). A text comes with the Number that
  \<^verbatim>\<open>Number(text)\<close> makes of it, so that reading a text as a Number needs no parser.
\<close>

datatype jsval = Undefined | Null | NaN | PInf | NInf | Num rat | Str string jsval

text \<open>\<^verbatim>\<open>Number(v)\<close>, the conversion every arithmetic operator applies first.\<close>

fun ToNumber :: "jsval \<Rightarrow> jsval" where
  "ToNumber Undefined = NaN"
| "ToNumber Null = Num 0"
| "ToNumber (Str s (Num x)) = Num x"
| "ToNumber (Str s PInf) = PInf"
| "ToNumber (Str s NInf) = NInf"
| "ToNumber (Str s v) = NaN"
| "ToNumber v = v"

text \<open>Truthiness, as \<^verbatim>\<open>if (v)\<close>, \<^verbatim>\<open>v || 0\<close> and \<^verbatim>\<open>!v\<close> test it.\<close>

fun truthy :: "jsval \<Rightarrow> bool" where
  "truthy Undefined = False"
| "truthy Null = False"
| "truthy NaN = False"
| "truthy (Num x) = (x \<noteq> 0)"
| "truthy (Str s v) = (s \<noteq> [])"
| "truthy v = True"

text \<open>\<^verbatim>\<open>a || b\<close> on values.\<close>

definition js_or :: "jsval \<Rightarrow> jsval \<Rightarrow> jsval" where
  "js_or a b = (if truthy a then a else b)"

subsection \<open>Rounding to a double\<close>

text \<open>
  Every arithmetic operator of JavaScript computes the exact result and rounds it to the
  nearest double, a tie going to the even significand. \<open>fl\<close> is that rounding: the
  significand has 53 bits, the exponent of the last bit is at least \<open>-1074\<close> (below
  that the doubles are subnormal and keep their spacing), and a result that rounds to
  \<open>2 ^ 1024\<close> or more is an infinity. \<open>bitlen\<close> is the number of binary digits of a
  positive integer.
\<close>

definition signed_inf :: "bool \<Rightarrow> jsval" where
  "signed_inf positive = (if positive then PInf else NInf)"

definition pow2 :: "int \<Rightarrow> rat" where
  "pow2 e = (if 0 \<le> e then 2 ^ nat e else 1 / 2 ^ nat (- e))"

text \<open>The integer part of the binary logarithm of a positive rational.\<close>

definition ilog2 :: "rat \<Rightarrow> int" where
  "ilog2 a = (if 1 \<le> a then bitlen \<lfloor>a\<rfloor> - 1 else - bitlen (\<lceil>1 / a\<rceil> - 1))"

text \<open>The nearest integer, the even one of two that are equally near.\<close>

definition rne :: "rat \<Rightarrow> int" where
  "rne y = (let f = \<lfloor>y\<rfloor>; r = y - of_int f
            in if r < 1 / 2 then f else if 1 / 2 < r then f + 1
               else if even f then f else f + 1)"

definition fl :: "rat \<Rightarrow> jsval" where
  "fl x = (if x = 0 then Num 0
           else (let a = \<bar>x\<bar>;
                     e = max (ilog2 a - 52) (- 1074);
                     r = of_int (rne (a / pow2 e)) * pow2 e
                 in if 2 ^ 1024 \<le> r then signed_inf (0 < x)
                    else Num (if 0 < x then r else - r)))"

text \<open>
  The Number that a decimal literal, or a number in a JSON text, denotes: \<^verbatim>\<open>0.34\<close> is
  \<open>lit (34 / 100)\<close>.
\<close>

definition lit :: "rat \<Rightarrow> jsval" where
  "lit x = fl x"

subsection \<open>The operators\<close>

fun num_add :: "jsval \<Rightarrow> jsval \<Rightarrow> jsval" where
  "num_add (Num a) (Num b) = fl (a + b)"
| "num_add PInf (Num b) = PInf"
| "num_add (Num a) PInf = PInf"
| "num_add PInf PInf = PInf"
| "num_add NInf (Num b) = NInf"
| "num_add (Num a) NInf = NInf"
| "num_add NInf NInf = NInf"
| "num_add a b = NaN"

fun num_neg :: "jsval \<Rightarrow> jsval" where
  "num_neg (Num a) = Num (- a)"
| "num_neg PInf = NInf"
| "num_neg NInf = PInf"
| "num_neg v = NaN"

fun num_mul :: "jsval \<Rightarrow> jsval \<Rightarrow> jsval" where
  "num_mul (Num a) (Num b) = fl (a * b)"
| "num_mul PInf (Num b) = (if b = 0 then NaN else signed_inf (0 < b))"
| "num_mul NInf (Num b) = (if b = 0 then NaN else signed_inf (b < 0))"
| "num_mul (Num a) PInf = (if a = 0 then NaN else signed_inf (0 < a))"
| "num_mul (Num a) NInf = (if a = 0 then NaN else signed_inf (a < 0))"
| "num_mul PInf PInf = PInf"
| "num_mul NInf NInf = PInf"
| "num_mul PInf NInf = NInf"
| "num_mul NInf PInf = NInf"
| "num_mul a b = NaN"

text \<open>
  Division. HOL's \<open>a / 0\<close> is \<open>0\<close>; JavaScript's is an infinity, or \<^verbatim>\<open>NaN\<close> for
  \<^verbatim>\<open>0 / 0\<close>. The only divisor of this code that can be zero is \<^verbatim>\<open>(100 + tax_percent) / 100\<close>,
  and a sum or a quotient by \<open>100\<close> that is zero is a positive zero.
\<close>

fun num_div :: "jsval \<Rightarrow> jsval \<Rightarrow> jsval" where
  "num_div (Num a) (Num b) =
     (if b = 0 then (if a = 0 then NaN else signed_inf (0 < a)) else fl (a / b))"
| "num_div PInf (Num b) = signed_inf (0 \<le> b)"
| "num_div NInf (Num b) = signed_inf (b < 0)"
| "num_div (Num a) PInf = Num 0"
| "num_div (Num a) NInf = Num 0"
| "num_div a b = NaN"

text \<open>
  \<^verbatim>\<open>a - b\<close>, \<^verbatim>\<open>a * b\<close> and \<^verbatim>\<open>a / b\<close> convert both operands to Numbers. \<open>js_add\<close> is
  \<^verbatim>\<open>a + b\<close> for operands that are no texts; the \<^verbatim>\<open>+\<close> that may meet a text is
  \<open>js_plus\<close> below.
\<close>

definition js_add :: "jsval \<Rightarrow> jsval \<Rightarrow> jsval" where
  "js_add a b = num_add (ToNumber a) (ToNumber b)"

definition js_sub :: "jsval \<Rightarrow> jsval \<Rightarrow> jsval" where
  "js_sub a b = num_add (ToNumber a) (num_neg (ToNumber b))"

definition js_mul :: "jsval \<Rightarrow> jsval \<Rightarrow> jsval" where
  "js_mul a b = num_mul (ToNumber a) (ToNumber b)"

definition js_div :: "jsval \<Rightarrow> jsval \<Rightarrow> jsval" where
  "js_div a b = num_div (ToNumber a) (ToNumber b)"

text \<open>\<^verbatim>\<open>a > 0\<close>: false as soon as the operand converts to \<^verbatim>\<open>NaN\<close>.\<close>

fun num_positive :: "jsval \<Rightarrow> bool" where
  "num_positive (Num a) = (0 < a)"
| "num_positive PInf = True"
| "num_positive v = False"

definition js_positive :: "jsval \<Rightarrow> bool" where
  "js_positive a = num_positive (ToNumber a)"

text \<open>
  \<^verbatim>\<open>Math.floor\<close>, and \<^verbatim>\<open>Math.round\<close>, which rounds a tie towards plus infinity. Both are
  exact: the integer they return is a double whenever the argument is.
\<close>

fun num_floor :: "jsval \<Rightarrow> jsval" where
  "num_floor (Num a) = Num (of_int \<lfloor>a\<rfloor>)"
| "num_floor v = v"

definition Math_floor :: "jsval \<Rightarrow> jsval" where
  "Math_floor a = num_floor (ToNumber a)"

fun num_round :: "jsval \<Rightarrow> jsval" where
  "num_round (Num a) = Num (of_int \<lfloor>a + 1 / 2\<rfloor>)"
| "num_round v = v"

definition Math_round :: "jsval \<Rightarrow> jsval" where
  "Math_round a = num_round (ToNumber a)"

text \<open>\<^verbatim>\<open>const roundValue = (value) => Math.round(value * 100) / 100;\<close>\<close>

definition roundValue :: "jsval \<Rightarrow> jsval" where
  "roundValue v = js_div (Math_round (js_mul v (Num 100))) (Num 100)"

text \<open>
  \<^verbatim>\<open>Number(v).toFixed(1)\<close>. The result is a string; it is \<^verbatim>\<open>"NaN"\<close>, \<^verbatim>\<open>"Infinity"\<close>,
  \<^verbatim>\<open>"-Infinity"\<close>, or an optional minus sign (written exactly when the number is below
  zero) followed by the decimal digits of \<open>n / 10\<close>, where \<open>n\<close> is the integer nearest
  to ten times the absolute value of the double, the larger one on a tie. Two such
  strings are equal exactly when these components are, so the components stand for the
  string.
\<close>

datatype fixed1 = FixedNaN | FixedInf bool | Fixed bool nat

fun toFixed1 :: "jsval \<Rightarrow> fixed1" where
  "toFixed1 (Num x) = Fixed (x < 0) (nat \<lfloor>\<bar>x\<bar> * 10 + 1 / 2\<rfloor>)"
| "toFixed1 PInf = FixedInf False"
| "toFixed1 NInf = FixedInf True"
| "toFixed1 v = FixedNaN"

definition Number_toFixed1 :: "jsval \<Rightarrow> fixed1" where
  "Number_toFixed1 v = toFixed1 (ToNumber v)"

text \<open>
  \<^verbatim>\<open>String(v)\<close> of a value. The decimal expansion that JavaScript writes for a finite
  Number is the runtime's; it is the parameter \<open>str\<close>. So is the Number that
  \<^verbatim>\<open>Number(s)\<close> reads from a text that the code itself has put together or received as
  an argument: the parameter \<open>num\<close>.
\<close>

fun ToString :: "(rat \<Rightarrow> string) \<Rightarrow> jsval \<Rightarrow> string" where
  "ToString str Undefined = ''undefined''"
| "ToString str Null = ''null''"
| "ToString str NaN = ''NaN''"
| "ToString str PInf = ''Infinity''"
| "ToString str NInf = ''-Infinity''"
| "ToString str (Num x) = str x"
| "ToString str (Str s v) = s"

text \<open>
  \<^verbatim>\<open>a + b\<close>: when one of the operands is a text, both are written out and joined;
  otherwise both are converted to Numbers and added.
\<close>

fun is_text :: "jsval \<Rightarrow> bool" where
  "is_text (Str s v) = True"
| "is_text v = False"

definition js_plus :: "(rat \<Rightarrow> string) \<Rightarrow> (string \<Rightarrow> jsval) \<Rightarrow> jsval \<Rightarrow> jsval \<Rightarrow> jsval" where
  "js_plus str num a b =
     (if is_text a \<or> is_text b
      then Str (ToString str a @ ToString str b) (num (ToString str a @ ToString str b))
      else num_add (ToNumber a) (ToNumber b))"

section \<open>The objects of the purchase-order screen\<close>

text \<open>
  A product as \<^verbatim>\<open>inventory/supplier-products\<close> returns it. \<open>p_brand\<close> is the name of
  the product's brand object, \<open>None\<close> when the product has no brand object.
\<close>

record product =
  p_id :: jsval
  p_main_image_link :: string
  p_name :: string
  p_category :: string
  p_brand :: "string option"
  p_sku :: string
  p_reference :: string
  p_cost_price :: jsval
  p_tax_percent :: jsval
  p_product_kind :: string
  p_voucher_value :: jsval
  p_supplier_discount_rate :: jsval
  p_client_discount_rate :: jsval

text \<open>
  A line of \<^verbatim>\<open>orderProducts\<close>. The XLSX import puts the rows of the sheet into
  \<^verbatim>\<open>orderProducts\<close> as they are, so a row is a line as well: a line lists every property
  that the code reads or writes on an object of that array, and \<open>None\<close> or
  \<open>Undefined\<close> is an absent property.
\<close>

record line =
  pk :: "nat option"
  line_id :: jsval
  main :: string
  name :: string
  category :: string
  brand :: "string option"
  quantity :: jsval
  quantity_received :: jsval
  sku :: "string option"
  barcode :: string
  cost_price :: jsval
  product_kind :: string
  status :: string
  voucher_value :: jsval
  supplier_discount_rate :: jsval
  orders :: string
  variations_json :: string
  order_ref :: "nat option"
  supplier :: "string option"

record supplier_rec =
  supplier_id :: int
  supplier_name :: string
  supplier_email :: string

text \<open>
  The script-level variables. \<open>products\<close> and \<open>suppliers\<close> are \<open>None\<close> until a
  request has filled them; \<open>sub_total\<close> is the number that \<^verbatim>\<open>updateSubtotal\<close> writes
  into the \<^verbatim>\<open>#sub-total\<close> label, in front of the currency sign.
\<close>

record state =
  products :: "product list option"
  selectedSupplier :: "supplier_rec option"
  selectedProduct :: "product option"
  selectedProductQuantity :: jsval
  orderProducts :: "line list"
  suppliers :: "supplier_rec list option"
  selectedOrderStatus :: string
  sub_total :: jsval

section \<open>The subtotal\<close>

text \<open>
  \<^verbatim>\<open>
  const updateSubtotal = () => {
      if (orderProducts.length) {
          document.getElementById(`sub-total`).innerText =
            `${roundValue(orderProducts.reduce(
                 (x, _product) => x + _product.quantity * _product.cost_price, 0))}...`;
          return
      }
      document.getElementById(`sub-total`).innerText = '0...';
  };
  \<close>
\<close>

text \<open>
  The accumulator \<^verbatim>\<open>x\<close> is a Number at every step (it starts as \<open>0\<close> and what is
  added is a product), so the \<^verbatim>\<open>+\<close> of the callback never joins texts. A quantity or a
  cost price that is a text is read as a Number by the product.
\<close>

definition subtotal_text :: "line list \<Rightarrow> jsval" where
  "subtotal_text ls =
     (if ls \<noteq> [] then
        roundValue (foldl (\<lambda>x p. js_add x (js_mul (quantity p) (cost_price p))) (Num 0) ls)
      else Num 0)"

definition updateSubtotal :: "state \<Rightarrow> state" where
  "updateSubtotal st = st\<lparr>sub_total := subtotal_text (orderProducts st)\<rparr>"

section \<open>Adding a product\<close>

text \<open>
  \<^verbatim>\<open>addProduct\<close> of \<^verbatim>\<open>po_populate.js\<close>: the selected product becomes a new line unless
  a line with the same sku and the same one-decimal voucher string is there already.
  Rendering the table (\<^verbatim>\<open>updateOrder\<close>) does not touch the variables and is left out.
  The parameters \<open>str\<close> and \<open>num\<close> are the runtime's conversions, which
  \<^verbatim>\<open>100 + selectedProduct.tax_percent\<close> needs when the tax percent is a text.
\<close>

definition newProduct ::
  "(rat \<Rightarrow> string) \<Rightarrow> (string \<Rightarrow> jsval) \<Rightarrow> state \<Rightarrow> product \<Rightarrow> line" where
  "newProduct str num st sp =
     (let l = \<lparr> pk = None,
                line_id = p_id sp,
                main = p_main_image_link sp,
                name = p_name sp,
                category = p_category sp,
                brand = p_brand sp,
                quantity = selectedProductQuantity st,
                quantity_received = Num 0,
                sku = Some (p_sku sp),
                barcode = p_reference sp,
                cost_price =
                  roundValue (js_div (p_cost_price sp)
                    (js_div (js_plus str num (Num 100) (p_tax_percent sp)) (Num 100))),
                product_kind = p_product_kind sp,
                status = selectedOrderStatus st,
                voucher_value = p_voucher_value sp,
                supplier_discount_rate = Undefined,
                orders = [],
                variations_json = [],
                order_ref = None,
                supplier = None \<rparr>
      in if p_product_kind sp = ''MONEY''
         then l\<lparr> supplier_discount_rate := p_supplier_discount_rate sp,
                 cost_price :=
                   Math_floor (js_mul (p_voucher_value sp)
                     (js_sub (Num 1) (js_div (p_supplier_discount_rate sp) (Num 100)))),
                 voucher_value := roundValue (p_voucher_value sp) \<rparr>
         else l)"

definition same_line :: "product \<Rightarrow> line \<Rightarrow> bool" where
  "same_line sp l =
     (sku l = Some (p_sku sp) \<and>
      Number_toFixed1 (voucher_value l) = Number_toFixed1 (p_voucher_value sp))"

definition addProduct ::
  "(rat \<Rightarrow> string) \<Rightarrow> (string \<Rightarrow> jsval) \<Rightarrow> state \<Rightarrow> state" where
  "addProduct str num st =
     (case selectedProduct st of
        None \<Rightarrow> st
      | Some sp \<Rightarrow>
          if find (same_line sp) (orderProducts st) = None
          then updateSubtotal (st\<lparr>orderProducts := orderProducts st @ [newProduct str num st sp]\<rparr>)
          else st)"

text \<open>
  The repository holds a second copy of \<^verbatim>\<open>po_populate.js\<close>. Its \<^verbatim>\<open>addProduct\<close> looks
  for a line with the same sku only, takes the tax off by a product instead of a
  quotient, reads \<^verbatim>\<open>selectedProduct.brand.name\<close> without the optional chaining (a product
  without a brand object raises a \<^verbatim>\<open>TypeError\<close> before anything is assigned), writes no
  voucher value on a line that is not of kind \<^verbatim>\<open>MONEY\<close>, and takes the voucher value of a
  \<^verbatim>\<open>MONEY\<close> line from \<^verbatim>\<open>client_discount_rate\<close>.
\<close>

datatype js_error = TypeError

definition newProduct2 :: "state \<Rightarrow> product \<Rightarrow> string \<Rightarrow> line" where
  "newProduct2 st sp brand_name =
     (let l = \<lparr> pk = None,
                line_id = p_id sp,
                main = p_main_image_link sp,
                name = p_name sp,
                category = p_category sp,
                brand = Some brand_name,
                quantity = selectedProductQuantity st,
                quantity_received = Num 0,
                sku = Some (p_sku sp),
                barcode = p_reference sp,
                cost_price =
                  roundValue (js_mul (p_cost_price sp)
                    (js_sub (Num 1) (js_div (p_tax_percent sp) (Num 100)))),
                product_kind = p_product_kind sp,
                status = selectedOrderStatus st,
                voucher_value = Undefined,
                supplier_discount_rate = Undefined,
                orders = [],
                variations_json = [],
                order_ref = None,
                supplier = None \<rparr>
      in if p_product_kind sp = ''MONEY''
         then l\<lparr> voucher_value := p_client_discount_rate sp,
                 supplier_discount_rate := p_supplier_discount_rate sp \<rparr>
         else l)"

definition addProduct2 :: "state \<Rightarrow> js_error + state" where
  "addProduct2 st =
     (case selectedProduct st of
        None \<Rightarrow> Inr st
      | Some sp \<Rightarrow>
          if find (\<lambda>l. sku l = Some (p_sku sp)) (orderProducts st) = None
          then (case p_brand sp of
                  None \<Rightarrow> Inl TypeError
                | Some b \<Rightarrow>
                    Inr (updateSubtotal
                      (st\<lparr>orderProducts := orderProducts st @ [newProduct2 st sp b]\<rparr>)))
          else Inr st)"

section \<open>Changing and deleting a line\<close>

text \<open>
  \<^verbatim>\<open>orderProducts.find(...)\<close> returns the first matching object and the assignment
  \<^verbatim>\<open>orderProduct.quantity = newQuantity\<close> changes that object inside the array: the first
  matching element is replaced.
\<close>

fun update_first :: "('a \<Rightarrow> bool) \<Rightarrow> ('a \<Rightarrow> 'a) \<Rightarrow> 'a list \<Rightarrow> 'a list" where
  "update_first P f [] = []"
| "update_first P f (x # xs) = (if P x then f x # xs else x # update_first P f xs)"



text \<open>
  \<^verbatim>\<open>
  const deleteProduct = (id , voucher_value) => {
      orderProducts = orderProducts.filter((_product) =>
          (_product.id + "_" + _product.voucher_value) !== (id + "_" + voucher_value));
      ...
      updateSubtotal();
  };
  \<close>
  The table's delete button passes both arguments as text.
\<close>

definition line_key :: "(rat \<Rightarrow> string) \<Rightarrow> line \<Rightarrow> string" where
  "line_key str l = ToString str (line_id l) @ ''_'' @ ToString str (voucher_value l)"

definition deleteProduct :: "(rat \<Rightarrow> string) \<Rightarrow> string \<Rightarrow> string \<Rightarrow> state \<Rightarrow> state" where
  "deleteProduct str id_arg vv st =
     updateSubtotal
       (st\<lparr>orderProducts :=
            filter (\<lambda>l. line_key str l \<noteq> id_arg @ ''_'' @ vv) (orderProducts st)\<rparr>)"

section \<open>The XLSX import\<close>

text \<open>
  \<^verbatim>\<open>importOrderProducts\<close> reads the first sheet of the file into an array of row objects,
  here the argument \<open>data\<close>. The supplier scan starts from \<^verbatim>\<open>null\<close>, which no row
  holds; a row without a supplier cell has the supplier \<^verbatim>\<open>undefined\<close> (\<open>None\<close>).
  \<^verbatim>\<open>
  for (const _prod_data of data) {
      if (supplier_name === null) {
          supplier_name = _prod_data.supplier;
      } else if (_prod_data.supplier && supplier_name !== _prod_data.supplier) {
          find_duplicate_supplier = true;
          break;
      }
  }
  \<close>
\<close>

datatype scan_name = ScanNull | ScanName "string option"

fun truthy_str :: "string option \<Rightarrow> bool" where
  "truthy_str None = False"
| "truthy_str (Some s) = (s \<noteq> [])"

fun supplier_scan :: "scan_name \<Rightarrow> line list \<Rightarrow> scan_name \<times> bool" where
  "supplier_scan n [] = (n, False)"
| "supplier_scan ScanNull (r # rs) = supplier_scan (ScanName (supplier r)) rs"
| "supplier_scan (ScanName s) (r # rs) =
     (if truthy_str (supplier r) \<and> s \<noteq> supplier r then (ScanName s, True)
      else supplier_scan (ScanName s) rs)"

text \<open>
  A JavaScript \<^verbatim>\<open>Map\<close> keeps its keys in insertion order; \<^verbatim>\<open>set\<close> on a key that is
  there keeps the key's place and replaces its value. That is \<open>AList.update\<close> on an
  association list; \<^verbatim>\<open>has\<close> and \<^verbatim>\<open>get\<close> are \<open>map_of\<close> and \<^verbatim>\<open>values()\<close> is
  \<open>map snd\<close>.
  \<^verbatim>\<open>
  let skusSet = new Set(products.map(prod => prod.sku));
  let products_data = data.filter(prod => skusSet.has(prod.sku));
  let orderProductsMap = new Map();
  orderProducts.forEach(prod => {
      orderProductsMap.set(prod.sku, prod);
  });
  products_data.forEach(newProd => {
      if (orderProductsMap.has(newProd.sku)) {
          let existingProd = orderProductsMap.get(newProd.sku);
          existingProd.quantity = newProd.quantity;
      } else {
          orderProductsMap.set(newProd.sku, newProd);
      }
  });
  orderProducts = Array.from(orderProductsMap.values());
  \<close>
\<close>

definition in_supplier_list :: "product list \<Rightarrow> line \<Rightarrow> bool" where
  "in_supplier_list ps r = (sku r \<in> set (map (\<lambda>p. Some (p_sku p)) ps))"

definition merge_row :: "line \<Rightarrow> (string option \<times> line) list \<Rightarrow> (string option \<times> line) list" where
  "merge_row newProd m =
     (case map_of m (sku newProd) of
        Some existingProd \<Rightarrow>
          AList.update (sku newProd) (existingProd\<lparr>quantity := quantity newProd\<rparr>) m
      | None \<Rightarrow> AList.update (sku newProd) newProd m)"

definition import_merge :: "product list \<Rightarrow> line list \<Rightarrow> line list \<Rightarrow> line list" where
  "import_merge ps data ops =
     (let products_data = filter (in_supplier_list ps) data;
          orderProductsMap = fold (\<lambda>prod m. AList.update (sku prod) prod m) ops [];
          orderProductsMap = fold merge_row products_data orderProductsMap
      in map snd orderProductsMap)"

text \<open>
  The whole handler. \<open>fetched\<close> is what \<^verbatim>\<open>getProductsBySupplier\<close> resolves with, \<open>None\<close>
  when the request is rejected: \<^verbatim>\<open>populateProducts\<close> then alerts and leaves \<^verbatim>\<open>products\<close>
  as it was. An exception inside \<^verbatim>\<open>reader.onload\<close> is caught there and alerted; one
  inside the \<^verbatim>\<open>then\<close> callback is not caught by anything. Copying the last row's
  \<^verbatim>\<open>id\<close> into the notes field and resetting the file input touch no variable and are
  left out.
\<close>

record import_out =
  alerts :: "string list"
  uncaught :: "js_error option"
  after :: state

definition importOrderProducts :: "product list option \<Rightarrow> line list \<Rightarrow> state \<Rightarrow> import_out" where
  "importOrderProducts fetched data st =
     (if data = [] then \<lparr>alerts = [], uncaught = None, after = st\<rparr>
      else
        case supplier_scan ScanNull data of
          (n, True) \<Rightarrow>
            \<lparr>alerts = [''Multiple suppliers are not allowed to enter''],
             uncaught = None, after = st\<rparr>
        | (n, False) \<Rightarrow>
            (case suppliers st of
               None \<Rightarrow>
                 \<lparr>alerts = [''an error occurred while importing the order''],
                  uncaught = None, after = st\<rparr>
             | Some ss \<Rightarrow>
                 (case find (\<lambda>s. ScanName (Some (supplier_name s)) = n) ss of
                    None \<Rightarrow>
                      \<lparr>alerts = [''supplier doesn't exist!''], uncaught = None, after = st\<rparr>
                  | Some selectedSupplierImport \<Rightarrow>
                      (let st1 = st\<lparr>selectedSupplier := Some selectedSupplierImport\<rparr>;
                           st2 = (case fetched of
                                    None \<Rightarrow> st1
                                  | Some ps \<Rightarrow> st1\<lparr>products := Some ps\<rparr>);
                           al = (case fetched of
                                   None \<Rightarrow> [''Something went wrong!'']
                                 | Some ps \<Rightarrow> [])
                       in case products st2 of
                            None \<Rightarrow> \<lparr>alerts = al, uncaught = Some TypeError, after = st2\<rparr>
                          | Some ps \<Rightarrow>
                              \<lparr>alerts = al, uncaught = None,
                               after = updateSubtotal
                                 (st2\<lparr>orderProducts :=
                                    import_merge ps data (orderProducts st2)\<rparr>)\<rparr>))))"

section \<open>The request helpers\<close>

text \<open>
  \<^verbatim>\<open>_callAPI\<close> builds a request, hands it to \<^verbatim>\<open>fetch\<close> and settles a promise from what
  comes back. The network is the parameter \<open>fetch\<close>: it fails, or it answers with a
  response whose \<^verbatim>\<open>json()\<close> yields a JSON value or fails (\<open>None\<close>). The requests
  handed to \<^verbatim>\<open>fetch\<close> are collected in a list so that what a function sends can be
  stated.
\<close>

datatype json = JNull | JBool bool | JNum rat | JStr string | JArr "json list"
  | JObj "(string \<times> json) list"

record response =
  ok :: bool
  http_status :: int
  parsed :: "json option"

datatype fetch_outcome = NetworkError | Responded response

record 'b request =
  url :: string
  http_method :: string
  headers :: "(string \<times> string) list"
  body :: "'b option"

text \<open>
  Reading a property of a parsed body: \<^verbatim>\<open>null.data\<close> raises a \<^verbatim>\<open>TypeError\<close>, an object
  yields the member (the last one of that name, as \<^verbatim>\<open>JSON.parse\<close> keeps it) or
  \<^verbatim>\<open>undefined\<close>, and a number, string, boolean or array has no such property. The same
  read on \<^verbatim>\<open>undefined\<close> raises as well.
\<close>

fun get_prop :: "string \<Rightarrow> json \<Rightarrow> js_error + json option" where
  "get_prop k JNull = Inl TypeError"
| "get_prop k (JObj kvs) = Inr (map_of (rev kvs) k)"
| "get_prop k v = Inr None"

datatype rejection = Status int | StatusData int json | Exception js_error

datatype promise = Resolved "json option" | Rejected rejection

text \<open>
  \<^verbatim>\<open>
  return fetch(BASE_API_URL + endpoint, config)
    .catch((_err) => { return Promise.reject({ status: -1 }); })
    .then((response) =>
      response.json()
        .catch((_err) => { return Promise.reject({ status: response.status }); })
        .then((responseBody) => {
          if (response.ok) {
            return Promise.resolve(responseBody.data);
          } else {
            return Promise.reject({ status: response.status, data: responseBody });
          }
        }),
    );
  \<close>
\<close>

definition settle :: "fetch_outcome \<Rightarrow> promise" where
  "settle out =
     (case out of
        NetworkError \<Rightarrow> Rejected (Status (- 1))
      | Responded r \<Rightarrow>
          (case parsed r of
             None \<Rightarrow> Rejected (Status (http_status r))
           | Some responseBody \<Rightarrow>
               if ok r
               then (case get_prop ''data'' responseBody of
                       Inl e \<Rightarrow> Rejected (Exception e)
                     | Inr d \<Rightarrow> Resolved d)
               else Rejected (StatusData (http_status r) responseBody)))"

definition BASE_API_URL :: string where
  "BASE_API_URL = ''/''"

text \<open>
  \<^verbatim>\<open>
  const config = { method, headers: headers || {} };
  if (body) {
    config['headers']['Content-Type'] = 'application/json';
    config['body'] = JSON.stringify(body);
  }
  \<close>
  A body is an object here, which is truthy; \<open>None\<close> is a call without one.
\<close>

definition api_config ::
  "string \<Rightarrow> string \<Rightarrow> 'b option \<Rightarrow> (string \<times> string) list option \<Rightarrow> 'b request" where
  "api_config endpoint meth payload hdrs =
     (let h = (case hdrs of None \<Rightarrow> [] | Some h \<Rightarrow> h)
      in \<lparr> url = BASE_API_URL @ endpoint,
           http_method = meth,
           headers = (case payload of
                        None \<Rightarrow> h
                      | Some b \<Rightarrow> AList.update ''Content-Type'' ''application/json'' h),
           body = payload \<rparr>)"

definition callAPI ::
  "('b request \<Rightarrow> fetch_outcome) \<Rightarrow> string \<Rightarrow> string \<Rightarrow> 'b option \<Rightarrow>
   (string \<times> string) list option \<Rightarrow> 'b request list \<Rightarrow> promise \<times> 'b request list" where
  "callAPI fetch endpoint meth payload hdrs sent =
     (let config = api_config endpoint meth payload hdrs
      in (settle (fetch config), sent @ [config]))"

text \<open>
  The identifier of a purchase order reaches these functions as text (the page writes
  \<^verbatim>\<open>'{{ product_instance.id }}'\<close> into the buttons, the empty string on the page of a
  new order) or as \<^verbatim>\<open>null\<close>, the default of \<^verbatim>\<open>savePO\<close>: \<open>None\<close> is \<^verbatim>\<open>null\<close>.
\<close>

fun id_text :: "string option \<Rightarrow> string" where
  "id_text None = ''null''"
| "id_text (Some s) = s"

text \<open>
  \<^verbatim>\<open>
  sendProductsOrder = async (order, id) => {
      if (id !== "") {
          return await _callAPI(`logistics/order-products/${id}`, 'PATCH', order, {
              'X-CSRFToken': getCookie("csrftoken"),
          });
      }
      return await _callAPI(`logistics/order-products`, 'POST', order, {
          'X-CSRFToken': getCookie("csrftoken"),
      });
  };
  \<close>
  \<open>csrf\<close> is the value of the cookie.
\<close>

definition sendProductsOrder ::
  "('b request \<Rightarrow> fetch_outcome) \<Rightarrow> string \<Rightarrow> 'b \<Rightarrow> string option \<Rightarrow>
   'b request list \<Rightarrow> promise \<times> 'b request list" where
  "sendProductsOrder fetch csrf order_data po_id sent =
     (if po_id \<noteq> Some []
      then callAPI fetch (''logistics/order-products/'' @ id_text po_id) ''PATCH''
             (Some order_data) (Some [(''X-CSRFToken'', csrf)]) sent
      else callAPI fetch ''logistics/order-products'' ''POST''
             (Some order_data) (Some [(''X-CSRFToken'', csrf)]) sent)"

section \<open>Saving a purchase order\<close>

record order_line =
  product_id :: jsval
  quantity_ordered :: jsval
  quantity_sent_to_logistics_center :: jsval
  ol_order :: "nat option"
  ol_voucher_value :: jsval
  ol_orders :: string
  variations :: string

record order_data =
  od_supplier :: int
  od_notes :: string
  od_status :: string
  od_products :: "order_line list"
  od_changelist_filters :: "string option"

datatype payload = EmptyObject | Order order_data

text \<open>
  What \<^verbatim>\<open>savePO\<close> leaves behind: the variables, the requests sent, the alert shown and the
  page it navigates to. An alert that quotes the server's message keeps the message as
  the JSON value it is.
\<close>

datatype alert = Plain string | Quoting string json

datatype change_id = IdText string | IdJson "json option"

datatype location = PoList | PoChange change_id

record save_out =
  so_state :: state
  so_sent :: "payload request list"
  so_alert :: "alert option"
  so_location :: "location option"

fun json_truthy :: "json \<Rightarrow> bool" where
  "json_truthy JNull = False"
| "json_truthy (JBool b) = b"
| "json_truthy (JNum x) = (x \<noteq> 0)"
| "json_truthy (JStr s) = (s \<noteq> [])"
| "json_truthy v = True"

text \<open>\<^verbatim>\<open>ex?.data?.message\<close> of a rejection, when it is truthy.\<close>

fun rejection_message :: "rejection \<Rightarrow> json option" where
  "rejection_message (StatusData s b) =
     (case get_prop ''message'' b of
        Inr (Some m) \<Rightarrow> (if json_truthy m then Some m else None)
      | _ \<Rightarrow> None)"
| "rejection_message r = None"

fun rejection_status :: "rejection \<Rightarrow> int option" where
  "rejection_status (Status s) = Some s"
| "rejection_status (StatusData s b) = Some s"
| "rejection_status (Exception e) = None"

definition sendApprovedPO ::
  "(payload request \<Rightarrow> fetch_outcome) \<Rightarrow> string \<Rightarrow> string \<Rightarrow>
   payload request list \<Rightarrow> promise \<times> payload request list" where
  "sendApprovedPO fetch csrf po_id sent =
     callAPI fetch (''logistics/order-products-status/'' @ po_id) ''PATCH''
       (Some EmptyObject) (Some [(''X-CSRFToken'', csrf)]) sent"

definition order_payload :: "string \<Rightarrow> string option \<Rightarrow> string \<Rightarrow> supplier_rec \<Rightarrow> line list \<Rightarrow> order_data" where
  "order_payload note filters new_status supp ls =
     \<lparr> od_supplier = supplier_id supp,
       od_notes = note,
       od_status = new_status,
       od_products =
         map (\<lambda>p. \<lparr> product_id = line_id p,
                      quantity_ordered = quantity p,
                      quantity_sent_to_logistics_center = Num 0,
                      ol_order = order_ref p,
                      ol_voucher_value = voucher_value p,
                      ol_orders = orders p,
                      variations = variations_json p \<rparr>) ls,
       od_changelist_filters = filters \<rparr>"

text \<open>
  \<^verbatim>\<open>savePO(status, id = null, keepEdit = true)\<close>. \<open>note\<close> is the trimmed text of the
  notes field and \<open>filters\<close> the \<^verbatim>\<open>changelistFilters\<close> parameter of the page's address.
  An approval with an identifier goes to \<^verbatim>\<open>sendApprovedPO\<close> alone; everything else needs
  lines and a supplier and goes to \<^verbatim>\<open>sendProductsOrder\<close>. Reading \<^verbatim>\<open>response.id\<close> of an
  answer that is \<^verbatim>\<open>undefined\<close> or \<^verbatim>\<open>null\<close> raises inside the \<^verbatim>\<open>try\<close> and ends in the
  same \<^verbatim>\<open>catch\<close> as a rejected request.
\<close>

definition save_failed :: "state \<Rightarrow> payload request list \<Rightarrow> rejection \<Rightarrow> save_out" where
  "save_failed st sent ex =
     \<lparr> so_state = st, so_sent = sent,
       so_alert =
         (case rejection_message ex of
            Some m \<Rightarrow>
              if rejection_status ex = Some 400 then Some (Quoting ''Error: '' m)
              else Some (Plain ''Something went wrong!'')
          | None \<Rightarrow> Some (Plain ''Something went wrong!'')),
       so_location = None \<rparr>"

definition savePO ::
  "(payload request \<Rightarrow> fetch_outcome) \<Rightarrow> string \<Rightarrow> string \<Rightarrow> string option \<Rightarrow>
   string \<Rightarrow> string option \<Rightarrow> bool \<Rightarrow> state \<Rightarrow> payload request list \<Rightarrow> save_out" where
  "savePO fetch csrf note filters new_status po_id keepEdit st sent =
     (if new_status = ''APPROVED'' \<and> truthy_str po_id then
        (case sendApprovedPO fetch csrf (id_text po_id) sent of
           (Resolved r, sent') \<Rightarrow>
             \<lparr> so_state = st, so_sent = sent', so_alert = None,
               so_location =
                 Some (if \<not> keepEdit then PoList else PoChange (IdText (id_text po_id))) \<rparr>
         | (Rejected approveError, sent') \<Rightarrow>
             \<lparr> so_state = st, so_sent = sent',
               so_alert =
                 (case rejection_message approveError of
                    Some m \<Rightarrow> Some (Quoting ''Error approving PO: '' m)
                  | None \<Rightarrow>
                      Some (Plain
                        ''Error approving the PO. Please try again or contact support.'')),
               so_location = None \<rparr>)
      else
        case selectedSupplier st of
          Some supp \<Rightarrow>
            if orderProducts st \<noteq> [] then
              (case sendProductsOrder fetch csrf
                      (Order (order_payload note filters new_status supp (orderProducts st)))
                      po_id sent of
                 (Resolved r, sent') \<Rightarrow>
                   if new_status = ''SENT_TO_SUPPLIER'' then
                     \<lparr> so_state = updateSubtotal (st\<lparr>orderProducts := []\<rparr>),
                       so_sent = sent', so_alert = None, so_location = Some PoList \<rparr>
                   else if \<not> keepEdit then
                     \<lparr> so_state = st, so_sent = sent', so_alert = None,
                       so_location = Some PoList \<rparr>
                   else
                     (case r of
                        None \<Rightarrow> save_failed st sent' (Exception TypeError)
                      | Some v \<Rightarrow>
                          (case get_prop ''id'' v of
                             Inl e \<Rightarrow> save_failed st sent' (Exception e)
                           | Inr i \<Rightarrow>
                               \<lparr> so_state = st, so_sent = sent', so_alert = None,
                                 so_location = Some (PoChange (IdJson i)) \<rparr>))
               | (Rejected ex, sent') \<Rightarrow> save_failed st sent' ex)
            else if new_status \<noteq> ''APPROVED'' then
              \<lparr> so_state = st, so_sent = sent,
                so_alert = Some (Plain ''Please add at least one product to the order.''),
                so_location = None \<rparr>
            else \<lparr> so_state = st, so_sent = sent, so_alert = None, so_location = None \<rparr>
        | None \<Rightarrow>
            if orderProducts st = [] \<and> new_status \<noteq> ''APPROVED'' then
              \<lparr> so_state = st, so_sent = sent,
                so_alert = Some (Plain ''Please add at least one product to the order.''),
                so_location = None \<rparr>
            else if new_status \<noteq> ''APPROVED'' then
              \<lparr> so_state = st, so_sent = sent,
                so_alert = Some (Plain ''Please select a supplier for the order.''),
                so_location = None \<rparr>
            else \<lparr> so_state = st, so_sent = sent, so_alert = None, so_location = None \<rparr>)"

section \<open>Loading an order from the page's initial data\<close>

text \<open>
  The page defines \<^verbatim>\<open>initialPOData\<close>, an array of the order's products; \<^verbatim>\<open>pk\<close> is the
  numeric key of one of them. \<^verbatim>\<open>loadOrderFromInitData\<close> first folds the array into three
  objects keyed by \<^verbatim>\<open>pk\<close>. An object with integer keys lists them in ascending order,
  and it is an association list here. \<^verbatim>\<open>Object.keys(sku_variations).includes(pk)\<close> looks
  for the number \<^verbatim>\<open>pk\<close> among key strings and is never true, so the list of a key is
  emptied before every \<^verbatim>\<open>push\<close>.
\<close>

record init_item =
  i_sku :: string
  i_pk :: nat
  i_orders :: string
  i_quantity :: jsval
  i_variation :: "string option"
  i_voucher_value :: jsval
  i_variations_json :: string

record variation_entry =
  v_quantity :: jsval
  v_variation :: "string option"
  v_order :: nat
  v_variations_json :: string

record init_product =
  ip_sku :: string
  ip_quantity :: jsval
  ip_orders :: string

text \<open>\<^verbatim>\<open>Math.max(1, q)\<close>.\<close>

fun num_max1 :: "jsval \<Rightarrow> jsval" where
  "num_max1 (Num a) = Num (max 1 a)"
| "num_max1 PInf = PInf"
| "num_max1 NInf = Num 1"
| "num_max1 v = NaN"

definition Math_max1 :: "jsval \<Rightarrow> jsval" where
  "Math_max1 q = num_max1 (ToNumber q)"

type_synonym init_tables =
  "(nat \<times> jsval) list \<times> (nat \<times> variation_entry list) list \<times> (nat \<times> init_product) list"

definition init_step :: "init_item \<Rightarrow> init_tables \<Rightarrow> init_tables" where
  "init_step initProduct tabs =
     (case tabs of (vouchers, sku_variations, res) \<Rightarrow>
        (let k = i_pk initProduct;
             q = Math_max1 (i_quantity initProduct);
             vouchers = AList.update k (i_voucher_value initProduct) vouchers;
             sku_variations = AList.update k [] sku_variations;
             sku_variations =
               (case map_of sku_variations k of
                  None \<Rightarrow> sku_variations
                | Some vs \<Rightarrow>
                    AList.update k
                      (vs @ [\<lparr> v_quantity = q,
                                v_variation = i_variation initProduct,
                                v_order = k,
                                v_variations_json = i_variations_json initProduct \<rparr>])
                      sku_variations)
         in (vouchers, sku_variations,
             AList.update k
               \<lparr> ip_sku = i_sku initProduct, ip_quantity = q,
                 ip_orders = i_orders initProduct \<rparr> res)))"

definition Object_keys :: "(nat \<times> 'v) list \<Rightarrow> nat list" where
  "Object_keys obj = sort (map fst obj)"

text \<open>
  The body of \<^verbatim>\<open>Object.keys(initProducts).forEach\<close>: the line of one key. A product
  that is not in the supplier's list, or has no brand object, raises a \<^verbatim>\<open>TypeError\<close>.
\<close>

definition productData ::
  "(rat \<Rightarrow> string) \<Rightarrow> (string \<Rightarrow> jsval) \<Rightarrow> product list \<Rightarrow> string \<Rightarrow> init_tables \<Rightarrow> nat \<Rightarrow>
   js_error + line" where
  "productData str num ps order_status tabs productPk =
     (case tabs of (vouchers, sku_variations, initProducts) \<Rightarrow>
      case map_of initProducts productPk of
        None \<Rightarrow> Inl TypeError
      | Some ip \<Rightarrow>
      case find (\<lambda>p. p_sku p = ip_sku ip) ps of
        None \<Rightarrow> Inl TypeError
      | Some sp \<Rightarrow>
      case p_brand sp of
        None \<Rightarrow> Inl TypeError
      | Some b \<Rightarrow>
      case map_of sku_variations productPk of
        Some (v0 # vs) \<Rightarrow>
          (let l = \<lparr> pk = Some productPk,
                     line_id = p_id sp,
                     main = p_main_image_link sp,
                     name = p_name sp,
                     category = p_category sp,
                     brand = Some b,
                     quantity = Num 0,
                     quantity_received = Num 0,
                     sku = Some (p_sku sp),
                     barcode = p_reference sp,
                     cost_price =
                       roundValue (js_div (p_cost_price sp)
                         (js_div (js_plus str num (Num 100) (p_tax_percent sp)) (Num 100))),
                     product_kind = p_product_kind sp,
                     status = order_status,
                     voucher_value = Undefined,
                     supplier_discount_rate = Undefined,
                     orders = ip_orders ip,
                     variations_json = v_variations_json v0,
                     order_ref = None,
                     supplier = None \<rparr>
           in if p_product_kind sp = ''MONEY''
              then (let v = js_or (case map_of vouchers productPk of
                                     None \<Rightarrow> Undefined | Some x \<Rightarrow> x) (Num 0);
                        d = js_or (p_supplier_discount_rate sp) (Num 0)
                    in Inr (l\<lparr> supplier_discount_rate := d,
                               cost_price :=
                                 Math_floor (js_mul v (js_sub (Num 1) (js_div d (Num 100)))),
                               voucher_value := roundValue v \<rparr>))
              else Inr l)
      | _ \<Rightarrow> Inl TypeError)"

fun push_lines ::
  "(nat \<Rightarrow> js_error + line) \<Rightarrow> nat list \<Rightarrow> line list \<Rightarrow> js_error option \<times> line list" where
  "push_lines mk [] acc = (None, acc)"
| "push_lines mk (k # ks) acc =
     (case mk k of
        Inl e \<Rightarrow> (Some e, acc)
      | Inr l \<Rightarrow> push_lines mk ks (acc @ [l]))"

text \<open>
  The second pass gives every line the quantity, sku and order of a variation entry of
  its key: the entry whose variation is the line's sku, or else the first one.
\<close>

definition with_variation :: "init_tables \<Rightarrow> line \<Rightarrow> js_error + line" where
  "with_variation tabs l =
     (case tabs of (vouchers, sku_variations, initProducts) \<Rightarrow>
      case pk l of
        None \<Rightarrow> Inl TypeError
      | Some k \<Rightarrow>
      case map_of sku_variations k of
        Some (v0 # vs) \<Rightarrow>
          (let v = (case find (\<lambda>v. v_variation v = sku l) (v0 # vs) of
                      Some m \<Rightarrow> m | None \<Rightarrow> v0)
           in Inr (l\<lparr> quantity := v_quantity v, sku := v_variation v,
                      order_ref := Some (v_order v) \<rparr>))
      | _ \<Rightarrow> Inl TypeError)"

fun map_lines :: "(line \<Rightarrow> js_error + line) \<Rightarrow> line list \<Rightarrow> js_error + line list" where
  "map_lines f [] = Inr []"
| "map_lines f (l # ls) =
     (case f l of
        Inl e \<Rightarrow> Inl e
      | Inr l' \<Rightarrow> (case map_lines f ls of Inl e \<Rightarrow> Inl e | Inr ls' \<Rightarrow> Inr (l' # ls')))"

text \<open>
  The whole function. \<open>url_supplier\<close> is the \<^verbatim>\<open>supplierName\<close> parameter of the page's
  address (\<open>None\<close> when there is none), \<open>fetched\<close> the answer to the product request as
  in the import, and \<open>sort_lines\<close> is \<^verbatim>\<open>Array.prototype.sort\<close> with the comparator
  \<^verbatim>\<open>(a, b) => a.sku < b.sku ? -1 : 1\<close>, which never answers that two lines are equal: the
  order it leaves among equal skus is the engine's, so the sort is a parameter. An
  exception ends the function where it is raised and keeps what was assigned before.
\<close>

record load_out =
  lo_alerts :: "string list"
  lo_error :: "js_error option"
  lo_state :: state

definition loadOrderFromInitData ::
  "(rat \<Rightarrow> string) \<Rightarrow> (string \<Rightarrow> jsval) \<Rightarrow> (line list \<Rightarrow> line list) \<Rightarrow>
   product list option \<Rightarrow> string option \<Rightarrow> init_item list \<Rightarrow> state \<Rightarrow> load_out" where
  "loadOrderFromInitData str num sort_lines fetched url_supplier initialPOData st =
     (let tabs = fold init_step initialPOData ([], [], []);
          initProducts = snd (snd tabs)
      in if url_supplier \<noteq> Some ''null'' \<and> Object_keys initProducts \<noteq> [] then
           (case suppliers st of
              None \<Rightarrow> \<lparr>lo_alerts = [], lo_error = Some TypeError, lo_state = st\<rparr>
            | Some ss \<Rightarrow>
                (case (case filter (\<lambda>x. Some (supplier_name x) = url_supplier) ss of
                         x # xs \<Rightarrow> Some x
                       | [] \<Rightarrow> selectedSupplier st) of
                   None \<Rightarrow> \<lparr>lo_alerts = [], lo_error = Some TypeError, lo_state = st\<rparr>
                 | Some s \<Rightarrow>
                     (let st1 = st\<lparr>selectedSupplier := Some s\<rparr>;
                          st2 = (case fetched of
                                   None \<Rightarrow> st1
                                 | Some ps \<Rightarrow> st1\<lparr>products := Some ps\<rparr>);
                          al = (case fetched of
                                  None \<Rightarrow> [''Something went wrong!'']
                                | Some ps \<Rightarrow> [])
                      in case products st2 of
                           None \<Rightarrow>
                             \<lparr>lo_alerts = al, lo_error = Some TypeError,
                              lo_state = st2\<lparr>orderProducts := []\<rparr>\<rparr>
                         | Some ps \<Rightarrow>
                             (case push_lines (productData str num ps (selectedOrderStatus st2) tabs)
                                     (Object_keys initProducts) [] of
                                (Some e, pushed) \<Rightarrow>
                                  \<lparr>lo_alerts = al, lo_error = Some e,
                                   lo_state = st2\<lparr>orderProducts := pushed\<rparr>\<rparr>
                              | (None, pushed) \<Rightarrow>
                                  (case map_lines (with_variation tabs) pushed of
                                     Inl e \<Rightarrow>
                                       \<lparr>lo_alerts = al, lo_error = Some e,
                                        lo_state = st2\<lparr>orderProducts := pushed\<rparr>\<rparr>
                                   | Inr ls \<Rightarrow>
                                       \<lparr>lo_alerts = al, lo_error = None,
                                        lo_state = updateSubtotal
                                          (st2\<lparr>orderProducts := sort_lines ls\<rparr>)\<rparr>)))))
         else \<lparr>lo_alerts = [], lo_error = None, lo_state = st\<rparr>)"

section \<open>Notions used in the statements\<close>

text \<open>A line with every property absent, from which the examples below are built.\<close>

definition blank_line :: line where
  "blank_line =
     \<lparr> pk = None, line_id = Undefined, main = [], name = [], category = [], brand = None,
       quantity = Undefined, quantity_received = Undefined, sku = None, barcode = [],
       cost_price = Undefined, product_kind = [], status = [], voucher_value = Undefined,
       supplier_discount_rate = Undefined, orders = [], variations_json = [],
       order_ref = None, supplier = None \<rparr>"

definition blank_product :: product where
  "blank_product =
     \<lparr> p_id = Num 1, p_main_image_link = [], p_name = [], p_category = [],
       p_brand = Some ''brand'', p_sku = [], p_reference = [], p_cost_price = Num 0,
       p_tax_percent = Num 0, p_product_kind = ''PHYSICAL'', p_voucher_value = Undefined,
       p_supplier_discount_rate = Undefined, p_client_discount_rate = Undefined \<rparr>"

definition blank_state :: state where
  "blank_state =
     \<lparr> products = None, selectedSupplier = None, selectedProduct = None,
       selectedProductQuantity = Num 1, orderProducts = [], suppliers = None,
       selectedOrderStatus = ''PENDING'', sub_total = Num 0 \<rparr>"

text \<open>
  The import in the words of its description, one row after the other: a row whose sku
  some line of the order has replaces the quantity of the lines with that sku and
  nothing else of them, and any other row is appended. Rows whose sku is not in the
  supplier's product list are not looked at.
\<close>

definition merge_spec_row :: "line \<Rightarrow> line list \<Rightarrow> line list" where
  "merge_spec_row r ls =
     (if sku r \<in> set (map sku ls)
      then map (\<lambda>l. if sku l = sku r then l\<lparr>quantity := quantity r\<rparr> else l) ls
      else ls @ [r])"

definition merge_spec :: "product list \<Rightarrow> line list \<Rightarrow> line list \<Rightarrow> line list" where
  "merge_spec ps data ls = fold merge_spec_row (filter (in_supplier_list ps) data) ls"

text \<open>
  The price of a voucher line in the words of its description, in exact arithmetic:
  the floor of the voucher value times one minus a hundredth of the discount rate.
\<close>

definition money_price_spec :: "rat \<Rightarrow> rat \<Rightarrow> rat" where
  "money_price_spec v r = of_int \<lfloor>v * (1 - r / 100)\<rfloor>"

text \<open>
  The subtotal in the words of its description: the sum over the lines of quantity
  times cost price, each the number that the line holds, rounded to two decimals, and
  \<open>0\<close> for an order without lines.
\<close>

definition num_val :: "jsval \<Rightarrow> rat" where
  "num_val v = (case ToNumber v of Num x \<Rightarrow> x | _ \<Rightarrow> 0)"

definition subtotal_spec :: "line list \<Rightarrow> rat" where
  "subtotal_spec ls =
     (if ls = [] then 0
      else of_int \<lfloor>(\<Sum>l\<leftarrow>ls. num_val (quantity l) * num_val (cost_price l)) * 100 + 1 / 2\<rfloor> / 100)"

text \<open>The association list that holds every line under its own sku.\<close>

definition keyed :: "line list \<Rightarrow> (string option \<times> line) list" where
  "keyed ls = map (\<lambda>l. (sku l, l)) ls"

text \<open>
  The states of the examples: a supplier, its products, and orders built by
  \<^verbatim>\<open>addProduct\<close> from the empty order. \<open>show_num\<close> and \<open>read_num\<close> are the fragment
  of the runtime's number formatting and parsing that the examples need.
\<close>

definition acme :: supplier_rec where
  "acme = \<lparr> supplier_id = 3, supplier_name = ''Acme'', supplier_email = ''po@acme.example'' \<rparr>"

definition acme_state :: state where
  "acme_state = blank_state\<lparr>suppliers := Some [acme]\<rparr>"

definition mug_red :: product where
  "mug_red = blank_product\<lparr>p_id := Num 7, p_sku := ''MUG-RED'', p_cost_price := Num 100,
     p_tax_percent := Num 17\<rparr>"

definition mug_blue :: product where
  "mug_blue = mug_red\<lparr>p_sku := ''MUG-BLUE''\<rparr>"

definition gift :: "rat \<Rightarrow> product" where
  "gift v = blank_product\<lparr>p_id := Num 9, p_sku := ''GIFT'', p_product_kind := ''MONEY'',
     p_voucher_value := lit v, p_supplier_discount_rate := Num 10\<rparr>"

definition gift34 :: product where
  "gift34 = (gift 100)\<lparr>p_supplier_discount_rate := Num 34\<rparr>"

definition select :: "product \<Rightarrow> state \<Rightarrow> state" where
  "select p st = st\<lparr>selectedProduct := Some p\<rparr>"

definition show_num :: "rat \<Rightarrow> string" where
  "show_num x = (if x = 1 then ''1'' else if x = 7 then ''7'' else if x = 9 then ''9''
                 else if x = 50 then ''50'' else if x = 100 then ''100'' else ''0'')"

definition read_num :: "string \<Rightarrow> jsval" where
  "read_num s = (if s = ''31'' then Num 31 else if s = ''50'' then Num 50
                 else if s = ''100'' then Num 100 else NaN)"

definition two_mugs :: state where
  "two_mugs =
     addProduct show_num read_num
       (select mug_blue (addProduct show_num read_num (select mug_red acme_state)))"

definition two_gifts :: state where
  "two_gifts =
     addProduct show_num read_num
       (select (gift 100) (addProduct show_num read_num (select (gift 50) acme_state)))"

definition mug_row :: "rat \<Rightarrow> line" where
  "mug_row q = blank_line\<lparr>sku := Some ''MUG-RED'', quantity := Num q, supplier := Some ''Acme''\<rparr>"


definition subtotal_example :: state where
  "subtotal_example =
     blank_state\<lparr>orderProducts :=
       [blank_line\<lparr>quantity := Num 5, cost_price := lit (251 / 1000)\<rparr>]\<rparr>"

definition catalogue :: "product list" where
  "catalogue = [mug_red, mug_blue, mug_red\<lparr>p_sku := ''MUG-GREEN''\<rparr>, gift 50, gift 100]"

definition mixed_file :: "line list" where
  "mixed_file =
     [mug_row 3,
      (mug_row 4)\<lparr>sku := Some ''UNKNOWN''\<rparr>,
      (mug_row 2)\<lparr>sku := Some ''MUG-GREEN''\<rparr>,
      mug_row 5]"

text \<open>
  Two networks for the examples: one answers every request with the JSON text
  \<^verbatim>\<open>null\<close>, the other answers by the request's method.
\<close>

definition null_server :: "payload request \<Rightarrow> fetch_outcome" where
  "null_server req = Responded \<lparr> ok = True, http_status = 200, parsed = Some JNull \<rparr>"

definition echo_server :: "payload request \<Rightarrow> fetch_outcome" where
  "echo_server req =
     (if http_method req = ''GET''
      then Responded \<lparr> ok = True, http_status = 200,
             parsed = Some (JObj [(''success'', JBool True), (''data'', JArr [JNum 1])]) \<rparr>
      else if http_method req = ''POST''
      then Responded \<lparr> ok = False, http_status = 400,
             parsed = Some (JObj [(''message'', JStr ''quantity missing'')]) \<rparr>
      else if http_method req = ''PATCH''
      then Responded \<lparr> ok = False, http_status = 502, parsed = None \<rparr>
      else NetworkError)"

text \<open>The order of two mugs with its supplier selected, ready to be saved.\<close>

definition ready_order :: state where
  "ready_order = two_mugs\<lparr>selectedSupplier := Some acme\<rparr>"

text \<open>An entry of \<^verbatim>\<open>initialPOData\<close>: one voucher of 100.\<close>

definition gift34_item :: init_item where
  "gift34_item = \<lparr> i_sku = ''GIFT'', i_pk = 4, i_orders = ''[12]'', i_quantity = Num 1,
     i_variation = Some ''GIFT'', i_voucher_value = Num 100, i_variations_json = ''{}'' \<rparr>"

text \<open>
  The pair that \<^verbatim>\<open>addProduct\<close> compares, read off a line; a product whose voucher value
  keeps its one-decimal string when it is rounded to two decimals; and a run of
  selections, each followed by \<^verbatim>\<open>addProduct\<close>, for either copy of the file.
\<close>

definition dedup_key :: "line \<Rightarrow> string option \<times> fixed1" where
  "dedup_key l = (sku l, Number_toFixed1 (voucher_value l))"

definition key_stable :: "product \<Rightarrow> bool" where
  "key_stable sp =
     (p_product_kind sp \<noteq> ''MONEY'' \<or>
      Number_toFixed1 (roundValue (p_voucher_value sp)) = Number_toFixed1 (p_voucher_value sp))"

fun add_all ::
  "(rat \<Rightarrow> string) \<Rightarrow> (string \<Rightarrow> jsval) \<Rightarrow> product list \<Rightarrow> state \<Rightarrow> state" where
  "add_all str num [] st = st"
| "add_all str num (p # ps) st =
     add_all str num ps (addProduct str num (st\<lparr>selectedProduct := Some p\<rparr>))"

fun add_all2 :: "product list \<Rightarrow> state \<Rightarrow> js_error + state" where
  "add_all2 [] st = Inr st"
| "add_all2 (p # ps) st =
     (case addProduct2 (st\<lparr>selectedProduct := Some p\<rparr>) of
        Inl e \<Rightarrow> Inl e
      | Inr st' \<Rightarrow> add_all2 ps st')"

section \<open>Auxiliary facts\<close>

lemma floor_rat_numeral: "\<lfloor>(numeral a :: rat) / numeral b\<rfloor> = numeral a div numeral b"
  by (metis floor_divide_of_int_eq of_int_numeral)

lemma floor_rat_one: "\<lfloor>(1 :: rat) / numeral b\<rfloor> = 1 div numeral b"
  by (metis floor_divide_of_int_eq of_int_1 of_int_numeral)

lemma ceiling_rat_numeral: "\<lceil>(numeral a :: rat) / numeral b\<rceil> = - ((- numeral a) div numeral b)"
  by (metis ceiling_divide_eq_div of_int_numeral)

lemma ceiling_rat_one: "\<lceil>(1 :: rat) / numeral b\<rceil> = - ((- 1) div numeral b)"
  by (metis ceiling_divide_eq_div of_int_1 of_int_numeral)

lemma bitlen_Bit0: "bitlen (numeral (Num.Bit0 n)) = bitlen (numeral n) + 1"
  by (subst compute_bitlen) simp

lemma bitlen_Bit1: "bitlen (numeral (Num.Bit1 n)) = bitlen (numeral n) + 1"
  by (subst compute_bitlen) simp

lemma bitlen_One: "bitlen 1 = 1" "bitlen Numeral1 = 1"
  by (subst compute_bitlen, simp)+

lemmas fl_eval = fl_def lit_def ilog2_def rne_def pow2_def signed_inf_def Let_def
  bitlen_Bit0 bitlen_Bit1 bitlen_One floor_rat_numeral floor_rat_one
  ceiling_rat_numeral ceiling_rat_one

lemma count_list_filter:
  "count_list (filter P xs) x = (if P x then count_list xs x else 0)"
  by (induction xs) auto

lemma update_first_length [simp]: "length (update_first P f xs) = length xs"
  by (induction xs) auto



lemma update_fresh: "k \<notin> fst ` set m \<Longrightarrow> AList.update k v m = m @ [(k, v)]"
  by (induction m) auto

lemma keyed_fst [simp]: "map fst (keyed ls) = map sku ls"
  by (simp add: keyed_def comp_def)

lemma keyed_snd [simp]: "map snd (keyed ls) = ls"
  by (simp add: keyed_def comp_def)

lemma fold_set_keyed:
  "distinct (map sku (acc @ ls)) \<Longrightarrow>
   fold (\<lambda>prod m. AList.update (sku prod) prod m) ls (keyed acc) = keyed (acc @ ls)"
proof (induction ls arbitrary: acc)
  case Nil
  then show ?case by simp
next
  case (Cons l ls)
  have fresh: "sku l \<notin> fst ` set (keyed acc)"
    using Cons.prems by (auto simp: keyed_def)
  have "AList.update (sku l) l (keyed acc) = keyed (acc @ [l])"
    by (simp add: update_fresh [OF fresh]) (simp add: keyed_def)
  moreover have "distinct (map sku ((acc @ [l]) @ ls))"
    using Cons.prems by simp
  ultimately show ?case
    using Cons.IH [of "acc @ [l]"] by simp
qed

lemma map_of_keyed_None: "sku r \<notin> set (map sku ls) \<Longrightarrow> map_of (keyed ls) (sku r) = None"
  by (simp add: keyed_def map_of_eq_None_iff image_iff) 

lemma map_of_keyed_Some:
  "sku r \<in> set (map sku ls) \<Longrightarrow> \<exists>e. map_of (keyed ls) (sku r) = Some e \<and> sku e = sku r"
  by (induction ls) (auto simp: keyed_def)

lemma update_keyed_existing:
  "distinct (map sku ls) \<Longrightarrow> map_of (keyed ls) k = Some e \<Longrightarrow>
   AList.update k (e\<lparr>quantity := q\<rparr>) (keyed ls) =
   keyed (map (\<lambda>l. if sku l = k then l\<lparr>quantity := q\<rparr> else l) ls)"
proof (induction ls)
  case Nil
  then show ?case by (simp add: keyed_def)
next
  case (Cons l ls)
  show ?case
  proof (cases "sku l = k")
    case True
    then have e: "e = l" using Cons.prems(2) by (simp add: keyed_def)
    have "k \<notin> set (map sku ls)" using True Cons.prems(1) by auto
    then have "map (\<lambda>l. if sku l = k then l\<lparr>quantity := q\<rparr> else l) ls = ls"
      by (induction ls) auto
    then show ?thesis using True e by (simp add: keyed_def)
  next
    case False
    then have "map_of (keyed ls) k = Some e" using Cons.prems(2) by (simp add: keyed_def)
    moreover have "distinct (map sku ls)" using Cons.prems(1) by simp
    ultimately have "AList.update k (e\<lparr>quantity := q\<rparr>) (keyed ls) =
       keyed (map (\<lambda>l. if sku l = k then l\<lparr>quantity := q\<rparr> else l) ls)"
      by (rule Cons.IH [rotated])
    then show ?thesis using False by (simp add: keyed_def)
  qed
qed

lemma merge_row_keyed:
  assumes "distinct (map sku ls)"
  shows "merge_row r (keyed ls) = keyed (merge_spec_row r ls)"
proof (cases "sku r \<in> set (map sku ls)")
  case True
  then obtain e where e: "map_of (keyed ls) (sku r) = Some e"
    using map_of_keyed_Some by blast
  show ?thesis
    using True e update_keyed_existing [OF assms e]
    by (simp add: merge_row_def merge_spec_row_def)
next
  case False
  have fresh: "sku r \<notin> fst ` set (keyed ls)"
    using False by (auto simp: keyed_def)
  show ?thesis
    using False map_of_keyed_None [OF False]
    by (simp add: merge_row_def merge_spec_row_def update_fresh [OF fresh]) (simp add: keyed_def)
qed

lemma merge_spec_row_skus:
  "map sku (merge_spec_row r ls) =
     (if sku r \<in> set (map sku ls) then map sku ls else map sku ls @ [sku r])"
  by (simp add: merge_spec_row_def comp_def)

lemma merge_spec_row_distinct:
  "distinct (map sku ls) \<Longrightarrow> distinct (map sku (merge_spec_row r ls))"
  by (simp add: merge_spec_row_skus)

lemma fold_merge_row_keyed:
  "distinct (map sku ls) \<Longrightarrow>
   fold merge_row rs (keyed ls) = keyed (fold merge_spec_row rs ls)"
proof (induction rs arbitrary: ls)
  case Nil
  then show ?case by simp
next
  case (Cons r rs)
  show ?case
    using Cons.IH [OF merge_spec_row_distinct [OF Cons.prems]]
    by (simp add: merge_row_keyed [OF Cons.prems])
qed

lemma import_merge_spec:
  assumes "distinct (map sku ls)"
  shows "import_merge ps data ls = merge_spec ps data ls"
proof -
  have "fold (\<lambda>prod m. AList.update (sku prod) prod m) ls [] = keyed ls"
    using fold_set_keyed [of "[]" ls] assms by (simp add: keyed_def)
  then show ?thesis
    by (simp add: import_merge_def merge_spec_def Let_def fold_merge_row_keyed [OF assms])
qed

lemma merge_spec_row_nth:
  "i < length ls \<Longrightarrow>
   i < length (merge_spec_row r ls) \<and>
   sku (merge_spec_row r ls ! i) = sku (ls ! i) \<and>
   (sku (ls ! i) \<noteq> sku r \<longrightarrow> merge_spec_row r ls ! i = ls ! i)"
  by (simp add: merge_spec_row_def nth_append)

lemma fold_merge_spec_row_nth:
  "i < length ls \<Longrightarrow>
   i < length (fold merge_spec_row rs ls) \<and>
   sku (fold merge_spec_row rs ls ! i) = sku (ls ! i) \<and>
   (sku (ls ! i) \<notin> set (map sku rs) \<longrightarrow> fold merge_spec_row rs ls ! i = ls ! i)"
proof (induction rs arbitrary: ls)
  case Nil
  then show ?case by simp
next
  case (Cons r rs)
  have one: "i < length (merge_spec_row r ls)" "sku (merge_spec_row r ls ! i) = sku (ls ! i)"
       "sku (ls ! i) \<noteq> sku r \<longrightarrow> merge_spec_row r ls ! i = ls ! i"
    using merge_spec_row_nth [OF Cons.prems, of r] by simp_all
  show ?case
    using Cons.IH [OF one(1)] one(2,3) by auto
qed

lemma supplier_scan_named:
  "supplier_scan (ScanName s) rs =
     (ScanName s, \<exists>r\<in>set rs. truthy_str (supplier r) \<and> s \<noteq> supplier r)"
  by (induction rs) auto

lemma import_empty: "importOrderProducts fetched [] st = \<lparr>alerts = [], uncaught = None, after = st\<rparr>"
  by (simp add: importOrderProducts_def)

lemma import_two_suppliers:
  "\<exists>r\<in>set rs. truthy_str (supplier r) \<and> supplier r0 \<noteq> supplier r \<Longrightarrow>
   importOrderProducts fetched (r0 # rs) st =
     \<lparr>alerts = [''Multiple suppliers are not allowed to enter''], uncaught = None, after = st\<rparr>"
proof -
  assume "\<exists>r\<in>set rs. truthy_str (supplier r) \<and> supplier r0 \<noteq> supplier r"
  then have "supplier_scan (ScanName (supplier r0)) rs = (ScanName (supplier r0), True)"
    by (simp add: supplier_scan_named)
  then show ?thesis
    by (simp add: importOrderProducts_def)
qed

lemma import_no_supplier:
  assumes "\<forall>ss. suppliers st = Some ss \<longrightarrow> (\<forall>s\<in>set ss. supplier r0 \<noteq> Some (supplier_name s))"
  shows "alerts (importOrderProducts fetched (r0 # rs) st) \<noteq> [] \<and>
         after (importOrderProducts fetched (r0 # rs) st) = st"
proof (cases "\<exists>r\<in>set rs. truthy_str (supplier r) \<and> supplier r0 \<noteq> supplier r")
  case True
  from import_two_suppliers [OF this] show ?thesis by simp
next
  case False
  then have scan: "supplier_scan (ScanName (supplier r0)) rs = (ScanName (supplier r0), False)"
    by (simp add: supplier_scan_named)
  show ?thesis
  proof (cases "suppliers st")
    case None
    then show ?thesis
      by (simp add: importOrderProducts_def scan)
  next
    case (Some ss)
    have "find (\<lambda>s. ScanName (Some (supplier_name s)) = ScanName (supplier r0)) ss = None"
      using assms Some by (auto simp: find_None_iff)
    then show ?thesis
      using Some by (simp add: importOrderProducts_def scan)
  qed
qed

lemma import_changes_only_if:
  assumes "orderProducts (after (importOrderProducts fetched data st)) \<noteq> orderProducts st"
  shows "\<exists>r0 rs ss s. data = r0 # rs \<and>
           (\<forall>r\<in>set rs. truthy_str (supplier r) \<longrightarrow> supplier r = supplier r0) \<and>
           suppliers st = Some ss \<and> s \<in> set ss \<and> supplier r0 = Some (supplier_name s)"
proof (cases data)
  case Nil
  then show ?thesis using assms by (simp add: import_empty)
next
  case (Cons r0 rs)
  have same: "\<forall>r\<in>set rs. truthy_str (supplier r) \<longrightarrow> supplier r = supplier r0"
  proof (rule ccontr)
    assume "\<not> ?thesis"
    then have "\<exists>r\<in>set rs. truthy_str (supplier r) \<and> supplier r0 \<noteq> supplier r" by auto
    from import_two_suppliers [OF this] show False using assms Cons by simp
  qed
  have "\<not> (\<forall>ss. suppliers st = Some ss \<longrightarrow> (\<forall>s\<in>set ss. supplier r0 \<noteq> Some (supplier_name s)))"
  proof
    assume "\<forall>ss. suppliers st = Some ss \<longrightarrow> (\<forall>s\<in>set ss. supplier r0 \<noteq> Some (supplier_name s))"
    from import_no_supplier [OF this] show False using assms Cons by simp
  qed
  then show ?thesis using same Cons by blast
qed

lemmas js_ops = js_add_def js_sub_def js_mul_def js_div_def js_plus_def Math_round_def
  Math_floor_def roundValue_def Number_toFixed1_def js_positive_def fl_eval

lemmas examples = acme_def acme_state_def mug_red_def mug_blue_def gift_def select_def
  blank_line_def blank_product_def blank_state_def mug_row_def

lemma updateSubtotal_sel:
  "orderProducts (updateSubtotal st) = orderProducts st"
  "products (updateSubtotal st) = products st"
  "suppliers (updateSubtotal st) = suppliers st"
  "selectedSupplier (updateSubtotal st) = selectedSupplier st"
  "selectedProduct (updateSubtotal st) = selectedProduct st"
  "selectedProductQuantity (updateSubtotal st) = selectedProductQuantity st"
  "selectedOrderStatus (updateSubtotal st) = selectedOrderStatus st"
  by (simp_all add: updateSubtotal_def)

lemma addProduct_vars:
  "suppliers (addProduct str num st) = suppliers st"
  "products (addProduct str num st) = products st"
  by (simp_all add: addProduct_def updateSubtotal_def split: option.splits)

lemma two_mugs_eval:
  "orderProducts two_mugs =
     [newProduct show_num read_num (select mug_red acme_state) mug_red,
      newProduct show_num read_num (select mug_blue acme_state) mug_blue]"
  by (simp add: two_mugs_def addProduct_def newProduct_def same_line_def updateSubtotal_sel
      examples Number_toFixed1_def)

lemma import_eval_single:
  "importOrderProducts (Some [mug_red]) [mug_row 3] acme_state =
     \<lparr>alerts = [], uncaught = None,
      after = updateSubtotal (acme_state\<lparr>selectedSupplier := Some acme,
                products := Some [mug_red], orderProducts := [mug_row 3]\<rparr>)\<rparr>"
  by (simp add: importOrderProducts_def import_merge_def merge_row_def in_supplier_list_def
      examples)

lemma import_after_lines:
  assumes "alerts (importOrderProducts (Some ps) data st) = []"
  shows "orderProducts (after (importOrderProducts (Some ps) data st)) =
         import_merge ps data (orderProducts st) \<or>
         (data = [] \<and> after (importOrderProducts (Some ps) data st) = st)"
proof (cases "data = []")
  case True
  then show ?thesis by (simp add: importOrderProducts_def)
next
  case False
  obtain n d where scan: "supplier_scan ScanNull data = (n, d)"
    by (cases "supplier_scan ScanNull data")
  show ?thesis
  proof (cases d)
    case True
    then show ?thesis using assms False scan by (simp add: importOrderProducts_def)
  next
    case nd: False
    show ?thesis
    proof (cases "suppliers st")
      case None
      then show ?thesis using assms False scan nd by (simp add: importOrderProducts_def)
    next
      case (Some ss)
      show ?thesis
      proof (cases "find (\<lambda>s. ScanName (Some (supplier_name s)) = n) ss")
        case None
        then show ?thesis using assms False scan nd Some by (simp add: importOrderProducts_def)
      next
        case found: (Some s)
        then show ?thesis using False scan nd Some
          by (simp add: importOrderProducts_def updateSubtotal_def)
      qed
    qed
  qed
qed

lemma merge_spec_Nil: "merge_spec ps [] ls = ls"
  by (simp add: merge_spec_def)

lemma two_gifts_eval:
  "orderProducts two_gifts =
     [newProduct show_num read_num (select (gift 50) acme_state) (gift 50),
      newProduct show_num read_num (select (gift 100) acme_state) (gift 100)]"
  by (simp add: two_gifts_def addProduct_def newProduct_def same_line_def updateSubtotal_sel
      examples js_ops)

lemma two_gifts_vars:
  "suppliers two_gifts = Some [acme]" "products two_gifts = None"
  by (simp_all add: two_gifts_def addProduct_vars select_def acme_state_def blank_state_def)

lemma two_mugs_vars:
  "suppliers two_mugs = Some [acme]" "products two_mugs = None"
  by (simp_all add: two_mugs_def addProduct_vars select_def acme_state_def blank_state_def)

lemma settle_resolved:
  "settle out = Resolved d \<longleftrightarrow>
     (\<exists>r b. out = Responded r \<and> ok r \<and> parsed r = Some b \<and> b \<noteq> JNull \<and>
            get_prop ''data'' b = Inr d)"
proof (cases out)
  case NetworkError
  then show ?thesis by (simp add: settle_def)
next
  case (Responded r)
  show ?thesis
  proof (cases "parsed r")
    case None
    then show ?thesis using Responded by (simp add: settle_def)
  next
    case (Some b)
    show ?thesis
    proof (cases "ok r")
      case True
      then show ?thesis using Responded Some
        by (cases b) (auto simp: settle_def split: sum.splits)
    next
      case False
      then show ?thesis using Responded Some by (simp add: settle_def)
    qed
  qed
qed

lemma callAPI_sent:
  "snd (callAPI fetch endpoint meth payload hdrs sent) = sent @ [api_config endpoint meth payload hdrs]"
  by (simp add: callAPI_def Let_def)

lemma sendProductsOrder_sent:
  "snd (sendProductsOrder fetch csrf od po_id sent) =
     sent @ [\<lparr> url = (if po_id \<noteq> Some [] then ''/logistics/order-products/'' @ id_text po_id
                        else ''/logistics/order-products''),
                http_method = (if po_id \<noteq> Some [] then ''PATCH'' else ''POST''),
                headers = [(''X-CSRFToken'', csrf), (''Content-Type'', ''application/json'')],
                body = Some od \<rparr>]"
  by (simp add: sendProductsOrder_def callAPI_sent api_config_def BASE_API_URL_def)

lemma savePO_sent:
  assumes "\<not> (new_status = ''APPROVED'' \<and> truthy_str po_id)"
    and "orderProducts st \<noteq> []" and "selectedSupplier st = Some supp"
  shows "so_sent (savePO fetch csrf note filters new_status po_id keepEdit st sent) =
     snd (sendProductsOrder fetch csrf
            (Order (order_payload note filters new_status supp (orderProducts st))) po_id sent)"
proof -
  obtain p sent' where r: "sendProductsOrder fetch csrf
            (Order (order_payload note filters new_status supp (orderProducts st))) po_id sent = (p, sent')"
    by (cases "sendProductsOrder fetch csrf
            (Order (order_payload note filters new_status supp (orderProducts st))) po_id sent")
  have c: "(new_status = ''APPROVED'' \<and> truthy_str po_id) = False"
    using assms(1) by simp
  show ?thesis
    unfolding savePO_def if_bool_eq_conj c
    using assms(2,3) r
    by (simp add: save_failed_def split: promise.splits option.splits sum.splits)
qed

lemma ready_order_vars:
  "orderProducts ready_order \<noteq> []" "selectedSupplier ready_order = Some acme"
  by (simp_all add: ready_order_def two_mugs_eval)

lemma newProduct_key:
  "key_stable sp \<Longrightarrow>
   dedup_key (newProduct str num st sp) = (Some (p_sku sp), Number_toFixed1 (p_voucher_value sp))"
  by (auto simp: key_stable_def dedup_key_def newProduct_def Let_def)

lemma addProduct_keeps_distinct:
  assumes "distinct (map dedup_key (orderProducts st))" and "key_stable sp"
  shows "distinct (map dedup_key (orderProducts (addProduct str num (st\<lparr>selectedProduct := Some sp\<rparr>))))"
proof (cases "find (same_line sp) (orderProducts st)")
  case None
  then have "\<forall>l\<in>set (orderProducts st). \<not> same_line sp l"
    by (simp add: find_None_iff)
  then have "(Some (p_sku sp), Number_toFixed1 (p_voucher_value sp)) \<notin>
      dedup_key ` set (orderProducts st)"
    by (auto simp: same_line_def dedup_key_def)
  then show ?thesis
    using None assms newProduct_key [OF assms(2), of str num "st\<lparr>selectedProduct := Some sp\<rparr>"]
    by (simp add: addProduct_def updateSubtotal_def)
next
  case (Some l)
  then show ?thesis using assms(1) by (simp add: addProduct_def)
qed

lemma addProduct2_keeps_distinct:
  assumes "distinct (map sku (orderProducts st))"
    and "addProduct2 (st\<lparr>selectedProduct := Some sp\<rparr>) = Inr st'"
  shows "distinct (map sku (orderProducts st'))"
proof (cases "find (\<lambda>l. sku l = Some (p_sku sp)) (orderProducts st)")
  case None
  then have "Some (p_sku sp) \<notin> sku ` set (orderProducts st)"
    by (auto simp: find_None_iff)
  then show ?thesis
    using None assms
    by (auto simp: addProduct2_def updateSubtotal_def newProduct2_def Let_def
        split: option.splits)
next
  case (Some l)
  then show ?thesis using assms by (auto simp: addProduct2_def)
qed

section \<open>The two copies of addProduct take the tax off differently\<close>

text \<open>
  Claim C1 says that both copies of \<^verbatim>\<open>addProduct\<close> compute the same tax-exclusive cost
  price. They do not: the first copy divides the cost price by \<open>(100 + t) / 100\<close>, the
  second multiplies it by \<open>1 - t / 100\<close>. For a product that costs \<open>100\<close> with a tax
  of \<open>17\<close> percent the first copy writes \<open>85.47\<close> (the double of that literal) on the
  new line and the second writes \<open>83\<close>.
\<close>

theorem addProduct_tax_variants_differ:
  "map cost_price (orderProducts (addProduct show_num read_num (select mug_red acme_state))) =
     [lit (8547 / 100)] \<and>
   map_sum id (\<lambda>st. map cost_price (orderProducts st))
     (addProduct2 (select mug_red acme_state)) = Inr [Num 83]"
  by (simp add: addProduct_def addProduct2_def newProduct_def newProduct2_def same_line_def
      updateSubtotal_sel examples js_ops)

section \<open>The import drops a line whose sku the order holds twice\<close>

text \<open>
  Claim C2 says that the import keeps every line of the order whose sku does not appear
  in the file. \<^verbatim>\<open>importOrderProducts\<close> collects the lines of the order in a \<^verbatim>\<open>Map\<close>
  keyed by sku alone, while \<^verbatim>\<open>addProduct\<close>, \<^verbatim>\<open>updateQuantity\<close> and \<^verbatim>\<open>deleteProduct\<close> tell
  lines apart by sku (or id) and voucher value. \<^verbatim>\<open>addProduct\<close> puts two vouchers of one
  sku and the values \<open>50\<close> and \<open>100\<close> into the order; the \<^verbatim>\<open>Map\<close> keeps the last
  of them only, so importing a file that names nothing but a mug goes through without an
  alert and the voucher of \<open>50\<close>, whose sku is not in the file, is no longer in
  the order.
\<close>

theorem import_drops_line:
  "alerts (importOrderProducts (Some catalogue) [mug_row 3] two_gifts) = [] \<and>
   orderProducts two_gifts ! 0 \<in> set (orderProducts two_gifts) \<and>
   sku (orderProducts two_gifts ! 0) \<notin> set (map sku [mug_row 3]) \<and>
   orderProducts two_gifts ! 0 \<notin>
     set (orderProducts (after (importOrderProducts (Some catalogue) [mug_row 3] two_gifts)))"
  by (simp add: importOrderProducts_def two_gifts_vars two_gifts_eval updateSubtotal_sel
      import_merge_def merge_row_def in_supplier_list_def catalogue_def newProduct_def
      examples js_ops)

section \<open>The price of a MONEY line is the floor of a rounded product\<close>

text \<open>
  Claim C3 says that the cost price of a line of kind \<^verbatim>\<open>MONEY\<close> is the floor of the
  voucher value times one minus a hundredth of the supplier discount rate. Both
  \<^verbatim>\<open>addProduct\<close> and \<^verbatim>\<open>loadOrderFromInitData\<close> take \<^verbatim>\<open>Math.floor\<close> of the product as
  doubles give it. For a voucher of \<open>100\<close> and a discount rate of \<open>34\<close> the
  quotient \<^verbatim>\<open>34 / 100\<close>, the difference \<^verbatim>\<open>1 - 0.34\<close> and the product are each rounded
  to a double, the product comes out just below \<open>66\<close>, and the line costs \<open>65\<close>
  on either path, where the discounted voucher value is \<open>66\<close>.
\<close>

theorem money_line_floor_one_short:
  "p_voucher_value gift34 = Num 100 \<and> p_supplier_discount_rate gift34 = Num 34 \<and>
   map cost_price
     (orderProducts (addProduct show_num read_num (select gift34 acme_state))) = [Num 65] \<and>
   map cost_price
     (orderProducts (lo_state
        (loadOrderFromInitData show_num read_num id (Some [gift34]) (Some ''Acme'')
           [gift34_item] acme_state))) = [Num 65] \<and>
   money_price_spec 100 34 = 66"
  by (simp add: addProduct_def newProduct_def same_line_def updateSubtotal_sel
      loadOrderFromInitData_def init_step_def Object_keys_def productData_def
      with_variation_def Math_max1_def js_or_def gift34_item_def gift34_def
      money_price_spec_def examples js_ops)

section \<open>The contract of the request wrapper\<close>

text \<open>
  Claim C4, amended. For every request, with whatever \<^verbatim>\<open>fetch\<close> does with it:
  \<^verbatim>\<open>_callAPI\<close> resolves with a value exactly when the response is ok and its body parses
  as JSON to something other than \<^verbatim>\<open>null\<close>, and the value is then the body's \<^verbatim>\<open>data\<close>
  member; when \<^verbatim>\<open>fetch\<close> itself fails it rejects with an object whose status is \<open>-1\<close>;
  when the body does not parse it rejects with the HTTP status only; when the body
  parses and the response is not ok it rejects with the HTTP status and the parsed
  body.
\<close>

theorem callAPI_contract:
  fixes fetch :: "'b request \<Rightarrow> fetch_outcome"
  shows
  "(fst (callAPI fetch endpoint meth payload hdrs sent) = Resolved d \<longleftrightarrow>
      (\<exists>r b. fetch (api_config endpoint meth payload hdrs) = Responded r \<and> ok r \<and>
             parsed r = Some b \<and> b \<noteq> JNull \<and> get_prop ''data'' b = Inr d)) \<and>
   (fetch (api_config endpoint meth payload hdrs) = NetworkError \<longrightarrow>
      fst (callAPI fetch endpoint meth payload hdrs sent) = Rejected (Status (- 1))) \<and>
   (\<forall>r. fetch (api_config endpoint meth payload hdrs) = Responded r \<and> parsed r = None \<longrightarrow>
      fst (callAPI fetch endpoint meth payload hdrs sent) = Rejected (Status (http_status r))) \<and>
   (\<forall>r b. fetch (api_config endpoint meth payload hdrs) = Responded r \<and> parsed r = Some b \<and>
          \<not> ok r \<longrightarrow>
      fst (callAPI fetch endpoint meth payload hdrs sent) =
        Rejected (StatusData (http_status r) b))"
  by (simp add: callAPI_def Let_def settle_resolved) (simp add: settle_def)

text \<open>
  The body \<^verbatim>\<open>null\<close> is valid JSON. On an ok response with that body the callback reads
  \<^verbatim>\<open>responseBody.data\<close> of \<^verbatim>\<open>null\<close>, which raises, and the promise is rejected with the
  \<^verbatim>\<open>TypeError\<close> although the response is ok and its body parses.
\<close>

theorem callAPI_null_body_counterexample:
  "null_server (api_config ''inventory/suppliers'' ''GET'' None None) =
     Responded \<lparr> ok = True, http_status = 200, parsed = Some JNull \<rparr> \<and>
   fst (callAPI null_server ''inventory/suppliers'' ''GET'' None None []) =
     Rejected (Exception TypeError)"
  by (simp add: callAPI_def settle_def null_server_def)

theorem callAPI_contract_witness:
  "fst (callAPI echo_server ''inventory/suppliers'' ''GET'' None None []) =
     Resolved (Some (JArr [JNum 1])) \<and>
   fst (callAPI echo_server ''logistics/order-products'' ''POST'' (Some EmptyObject) None []) =
     Rejected (StatusData 400 (JObj [(''message'', JStr ''quantity missing'')])) \<and>
   fst (callAPI echo_server ''logistics/order-products/5'' ''PATCH'' (Some EmptyObject) None []) =
     Rejected (Status 502) \<and>
   fst (callAPI echo_server ''logistics/order-products/5'' ''DELETE'' None None []) =
     Rejected (Status (- 1))"
proof -
  have get: "echo_server (api_config ''inventory/suppliers'' ''GET'' None None) =
      Responded \<lparr> ok = True, http_status = 200,
        parsed = Some (JObj [(''success'', JBool True), (''data'', JArr [JNum 1])]) \<rparr>"
    by (simp add: echo_server_def api_config_def)
  have post: "echo_server (api_config ''logistics/order-products'' ''POST'' (Some EmptyObject) None) =
      Responded \<lparr> ok = False, http_status = 400,
        parsed = Some (JObj [(''message'', JStr ''quantity missing'')]) \<rparr>"
    by (simp add: echo_server_def api_config_def)
  have patch: "echo_server (api_config ''logistics/order-products/5'' ''PATCH'' (Some EmptyObject) None) =
      Responded \<lparr> ok = False, http_status = 502, parsed = None \<rparr>"
    by (simp add: echo_server_def api_config_def)
  have del: "echo_server (api_config ''logistics/order-products/5'' ''DELETE'' None None) = NetworkError"
    by (simp add: echo_server_def api_config_def)
  have 1: "fst (callAPI echo_server ''inventory/suppliers'' ''GET'' None None []) =
     Resolved (Some (JArr [JNum 1]))"
    using callAPI_contract [of echo_server "''inventory/suppliers''" "''GET''" None None "[]"
        "Some (JArr [JNum 1])"]
    by (simp add: get)
  have 2: "fst (callAPI echo_server ''logistics/order-products'' ''POST'' (Some EmptyObject) None []) =
     Rejected (StatusData 400 (JObj [(''message'', JStr ''quantity missing'')]))"
    using callAPI_contract [of echo_server "''logistics/order-products''" "''POST''"
        "Some EmptyObject" None "[]"]
    by (simp add: post)
  have 3: "fst (callAPI echo_server ''logistics/order-products/5'' ''PATCH'' (Some EmptyObject) None []) =
     Rejected (Status 502)"
    using callAPI_contract [of echo_server "''logistics/order-products/5''" "''PATCH''"
        "Some EmptyObject" None "[]"]
    by (simp add: patch)
  have 4: "fst (callAPI echo_server ''logistics/order-products/5'' ''DELETE'' None None []) =
     Rejected (Status (- 1))"
    using callAPI_contract [of echo_server "''logistics/order-products/5''" "''DELETE''"
        None None "[]"]
    by (simp add: del)
  from 1 2 3 4 show ?thesis by simp
qed

section \<open>The import needs one known supplier\<close>

text \<open>
  Claim C5. If \<^verbatim>\<open>importOrderProducts\<close> changes \<^verbatim>\<open>orderProducts\<close>, then the file has a first
  row, every later row that names a supplier names the supplier of the first row, and
  that supplier is in the loaded supplier list. And if some row names a non-empty
  supplier other than the first row's, or no loaded supplier has the first row's
  supplier as its name, then the import shows an alert and leaves every variable,
  \<^verbatim>\<open>orderProducts\<close> among them, as it was.
\<close>

theorem import_supplier_guard:
  "(orderProducts (after (importOrderProducts fetched data st)) \<noteq> orderProducts st \<longrightarrow>
      (\<exists>r0 rs ss s. data = r0 # rs \<and>
         (\<forall>r\<in>set rs. truthy_str (supplier r) \<longrightarrow> supplier r = supplier r0) \<and>
         suppliers st = Some ss \<and> s \<in> set ss \<and> supplier r0 = Some (supplier_name s))) \<and>
   (\<forall>r0 rs. data = r0 # rs \<and>
       ((\<exists>r\<in>set rs. truthy_str (supplier r) \<and> supplier r \<noteq> supplier r0) \<or>
        (\<forall>ss. suppliers st = Some ss \<longrightarrow> (\<forall>s\<in>set ss. supplier r0 \<noteq> Some (supplier_name s)))) \<longrightarrow>
       alerts (importOrderProducts fetched data st) \<noteq> [] \<and>
       after (importOrderProducts fetched data st) = st)"
proof (intro conjI allI impI)
  assume "orderProducts (after (importOrderProducts fetched data st)) \<noteq> orderProducts st"
  then show "\<exists>r0 rs ss s. data = r0 # rs \<and>
         (\<forall>r\<in>set rs. truthy_str (supplier r) \<longrightarrow> supplier r = supplier r0) \<and>
         suppliers st = Some ss \<and> s \<in> set ss \<and> supplier r0 = Some (supplier_name s)"
    by (rule import_changes_only_if)
next
  fix r0 rs
  assume h: "data = r0 # rs \<and>
       ((\<exists>r\<in>set rs. truthy_str (supplier r) \<and> supplier r \<noteq> supplier r0) \<or>
        (\<forall>ss. suppliers st = Some ss \<longrightarrow> (\<forall>s\<in>set ss. supplier r0 \<noteq> Some (supplier_name s))))"
  then have d: "data = r0 # rs" by simp
  from h consider
      "\<exists>r\<in>set rs. truthy_str (supplier r) \<and> supplier r \<noteq> supplier r0"
    | "\<forall>ss. suppliers st = Some ss \<longrightarrow> (\<forall>s\<in>set ss. supplier r0 \<noteq> Some (supplier_name s))"
    by blast
  then have "alerts (importOrderProducts fetched data st) \<noteq> [] \<and>
       after (importOrderProducts fetched data st) = st"
  proof cases
    case 1
    then have "\<exists>r\<in>set rs. truthy_str (supplier r) \<and> supplier r0 \<noteq> supplier r"
      by (metis (no_types))
    from import_two_suppliers [OF this] show ?thesis by (simp add: d)
  next
    case 2
    from import_no_supplier [OF this] show ?thesis by (simp add: d)
  qed
  then show "alerts (importOrderProducts fetched data st) \<noteq> []"
    and "after (importOrderProducts fetched data st) = st" by simp_all
qed

theorem import_supplier_guard_witness:
  "orderProducts (after (importOrderProducts (Some [mug_red]) [mug_row 3] acme_state))
     \<noteq> orderProducts acme_state \<and>
   supplier (mug_row 3) = Some (supplier_name acme) \<and>
   alerts (importOrderProducts (Some [mug_red])
             [mug_row 3, (mug_row 1)\<lparr>supplier := Some ''Other''\<rparr>] acme_state) \<noteq> [] \<and>
   after (importOrderProducts (Some [mug_red])
             [mug_row 3, (mug_row 1)\<lparr>supplier := Some ''Other''\<rparr>] acme_state) = acme_state"
proof -
  let ?good = "[mug_row 3]"
  let ?bad = "[mug_row 3, (mug_row 1)\<lparr>supplier := Some ''Other''\<rparr>]"
  have changed: "orderProducts (after (importOrderProducts (Some [mug_red]) ?good acme_state))
     \<noteq> orderProducts acme_state"
    by (simp add: import_eval_single updateSubtotal_def) (simp add: examples)
  have "\<exists>r0 rs ss s. ?good = r0 # rs \<and>
         (\<forall>r\<in>set rs. truthy_str (supplier r) \<longrightarrow> supplier r = supplier r0) \<and>
         suppliers acme_state = Some ss \<and> s \<in> set ss \<and> supplier r0 = Some (supplier_name s)"
    using conjunct1 [OF import_supplier_guard [of "Some [mug_red]" ?good acme_state]] changed
    by (rule mp)
  then obtain r0 rs ss s where
    "?good = r0 # rs" "suppliers acme_state = Some ss" "s \<in> set ss"
    "supplier r0 = Some (supplier_name s)"
    by blast
  then have named: "supplier (mug_row 3) = Some (supplier_name acme)"
    by (auto simp add: acme_state_def blank_state_def)
  have other: "?bad = mug_row 3 # [(mug_row 1)\<lparr>supplier := Some ''Other''\<rparr>] \<and>
      ((\<exists>r\<in>set [(mug_row 1)\<lparr>supplier := Some ''Other''\<rparr>].
          truthy_str (supplier r) \<and> supplier r \<noteq> supplier (mug_row 3)) \<or>
       (\<forall>ss. suppliers acme_state = Some ss \<longrightarrow>
          (\<forall>s\<in>set ss. supplier (mug_row 3) \<noteq> Some (supplier_name s))))"
    by (simp add: mug_row_def blank_line_def)
  have "alerts (importOrderProducts (Some [mug_red]) ?bad acme_state) \<noteq> [] \<and>
        after (importOrderProducts (Some [mug_red]) ?bad acme_state) = acme_state"
    using conjunct2 [OF import_supplier_guard [of "Some [mug_red]" ?bad acme_state],
        THEN spec, THEN spec, THEN mp, OF other] .
  with changed named show ?thesis by simp
qed

section \<open>A voucher value with a third decimal is added twice\<close>

text \<open>
  Claim C6 says that no sequence of \<^verbatim>\<open>addProduct\<close> calls leaves two lines with the same
  sku whose voucher values agree to one decimal place. \<^verbatim>\<open>addProduct\<close> compares the
  one-decimal string of the stored voucher value with that of the selected product's,
  but what it stores for a \<^verbatim>\<open>MONEY\<close> product is the value rounded to two decimals. For
  the voucher value \<open>100.246\<close> the product's string is \<^verbatim>\<open>"100.2"\<close>, the stored value is
  \<open>100.25\<close> and its string is \<^verbatim>\<open>"100.3"\<close>: adding the same product a second time finds
  no match and appends a second line, equal to the first in sku and voucher value.
\<close>

theorem addProduct_repeats_rounded_voucher:
  "map (\<lambda>l. (sku l, voucher_value l, Number_toFixed1 (voucher_value l)))
     (orderProducts (addProduct show_num read_num (addProduct show_num read_num
        (select (gift (100246 / 1000)) acme_state)))) =
     [(Some ''GIFT'', Num (10025 / 100), Fixed False 1003),
      (Some ''GIFT'', Num (10025 / 100), Fixed False 1003)]"
  by (simp add: addProduct_def newProduct_def same_line_def updateSubtotal_sel examples js_ops)

section \<open>Saving sends a POST for a new order and a PATCH for an existing one\<close>

text \<open>
  Claim C7. \<^verbatim>\<open>sendProductsOrder(order, id)\<close> hands exactly one request to \<^verbatim>\<open>fetch\<close>. It is
  a \<^verbatim>\<open>PATCH\<close> to \<^verbatim>\<open>/logistics/order-products/{id}\<close> exactly when \<^verbatim>\<open>id\<close> is not the empty
  string, and a \<^verbatim>\<open>POST\<close> to \<^verbatim>\<open>/logistics/order-products\<close> exactly when it is. \<^verbatim>\<open>savePO\<close>,
  unless it is an approval of an order that has an identifier, sends the lines of an
  order with a supplier through \<^verbatim>\<open>sendProductsOrder\<close> with the identifier it was given:
  the page of a new order passes the empty string and so posts, the page of an existing
  order passes its identifier and so patches.
\<close>

theorem sendProductsOrder_verb:
  "(\<exists>r. snd (sendProductsOrder fetch csrf od po_id sent) = sent @ [r] \<and>
        (http_method r = ''PATCH'' \<and> url r = ''/logistics/order-products/'' @ id_text po_id
           \<longleftrightarrow> po_id \<noteq> Some []) \<and>
        (http_method r = ''POST'' \<and> url r = ''/logistics/order-products''
           \<longleftrightarrow> po_id = Some [])) \<and>
   (\<not> (new_status = ''APPROVED'' \<and> truthy_str po_id) \<and> orderProducts st \<noteq> [] \<and>
    selectedSupplier st = Some supp \<longrightarrow>
      so_sent (savePO fetch csrf note filters new_status po_id keepEdit st sent) =
        snd (sendProductsOrder fetch csrf
               (Order (order_payload note filters new_status supp (orderProducts st)))
               po_id sent))"
  by (auto simp: sendProductsOrder_sent savePO_sent)

theorem sendProductsOrder_verb_witness:
  "map (\<lambda>r. (http_method r, url r))
     (so_sent (savePO echo_server ''token'' ''note'' None ''PENDING'' (Some []) False
        ready_order [])) = [(''POST'', ''/logistics/order-products'')] \<and>
   map (\<lambda>r. (http_method r, url r))
     (so_sent (savePO echo_server ''token'' ''note'' None ''PENDING'' (Some ''12'') False
        ready_order [])) = [(''PATCH'', ''/logistics/order-products/12'')]"
proof -
  have new: "\<not> (''PENDING'' = ''APPROVED'' \<and> truthy_str (Some [])) \<and>
      orderProducts ready_order \<noteq> [] \<and> selectedSupplier ready_order = Some acme"
    by (simp add: ready_order_vars)
  have old: "\<not> (''PENDING'' = ''APPROVED'' \<and> truthy_str (Some ''12'')) \<and>
      orderProducts ready_order \<noteq> [] \<and> selectedSupplier ready_order = Some acme"
    by (simp add: ready_order_vars)
  let ?od = "Order (order_payload ''note'' None ''PENDING'' acme (orderProducts ready_order))"
  note post = sendProductsOrder_verb [of echo_server "''token''" ?od "Some []" "[]"
      "''PENDING''" ready_order acme "''note''" None False]
  note patch = sendProductsOrder_verb [of echo_server "''token''" ?od "Some ''12''" "[]"
      "''PENDING''" ready_order acme "''note''" None False]
  have 1: "map (\<lambda>r. (http_method r, url r))
     (so_sent (savePO echo_server ''token'' ''note'' None ''PENDING'' (Some []) False
        ready_order [])) = [(''POST'', ''/logistics/order-products'')]"
    using conjunct1 [OF post] conjunct2 [OF post, THEN mp, OF new] by auto
  have 2: "map (\<lambda>r. (http_method r, url r))
     (so_sent (savePO echo_server ''token'' ''note'' None ''PENDING'' (Some ''12'') False
        ready_order [])) = [(''PATCH'', ''/logistics/order-products/12'')]"
    using conjunct1 [OF patch] conjunct2 [OF patch, THEN mp, OF old] by auto
  from 1 2 show ?thesis by simp
qed

section \<open>Changing a quantity changes the first matching line only\<close>




section \<open>Deleting removes the lines of one key and nothing else\<close>

text \<open>
  Claim C9. \<^verbatim>\<open>deleteProduct(id, voucher_value)\<close> leaves a subsequence of the order, so the
  lines that stay keep their relative order, and it keeps of every line exactly the
  copies the order had, unchanged, unless the line's concatenated key
  \<^verbatim>\<open>id + "_" + voucher_value\<close> is the key of the arguments: of such a line nothing stays.
\<close>

theorem deleteProduct_frame:
  "subseq (orderProducts (deleteProduct str a b st)) (orderProducts st) \<and>
   (\<forall>l. count_list (orderProducts (deleteProduct str a b st)) l =
        (if line_key str l = a @ ''_'' @ b then 0 else count_list (orderProducts st) l))"
  by (simp add: deleteProduct_def updateSubtotal_def count_list_filter)

section \<open>The subtotal is rounded from a product of doubles\<close>

text \<open>
  Claim C10 says that the subtotal label shows the sum over the lines of quantity times
  cost price, rounded to two decimals. \<^verbatim>\<open>updateSubtotal\<close> rounds by
  \<^verbatim>\<open>Math.round(value * 100) / 100\<close> on doubles. For an order of one line, five pieces
  at \<open>0.251\<close> each, the sum is above \<open>1.255\<close> (the double of \<open>0.251\<close> is a little
  more than \<open>0.251\<close>) and rounds to \<open>1.26\<close>; the product of the two doubles is
  rounded to a double below \<open>1.255\<close>, a hundred times that is rounded to a double
  below \<open>125.5\<close>, and the label shows \<open>1.25\<close>.
\<close>

theorem subtotal_one_cent_short:
  "map (\<lambda>l. (quantity l, cost_price l)) (orderProducts subtotal_example) =
     [(Num 5, lit (251 / 1000))] \<and>
   251 / 1000 < num_val (lit (251 / 1000)) \<and>
   sub_total (updateSubtotal subtotal_example) = Num (125 / 100) \<and>
   subtotal_spec (orderProducts subtotal_example) = 126 / 100"
  by (simp add: updateSubtotal_def subtotal_text_def subtotal_spec_def num_val_def
      subtotal_example_def examples js_ops)

section \<open>Where addProduct does keep its lines apart\<close>

text \<open>
  The first copy of \<^verbatim>\<open>addProduct\<close> keeps the pairs of sku and one-decimal voucher string
  of the lines pairwise different through any run of selections and additions, as long
  as every selected product of kind \<^verbatim>\<open>MONEY\<close> has a voucher value whose one-decimal
  string survives the rounding to two decimals (any value with at most two decimals).
\<close>

theorem addProduct_no_duplicates:
  assumes "distinct (map dedup_key (orderProducts st))" and "\<forall>p\<in>set ps. key_stable p"
  shows "distinct (map dedup_key (orderProducts (add_all str num ps st)))"
  using assms
proof (induction ps arbitrary: st)
  case Nil
  then show ?case by simp
next
  case (Cons p ps)
  have "distinct (map dedup_key (orderProducts (addProduct str num (st\<lparr>selectedProduct := Some p\<rparr>))))"
    using addProduct_keeps_distinct [of st p str num] Cons.prems by simp
  then show ?case using Cons.IH Cons.prems(2) by simp
qed

theorem addProduct_no_duplicates_witness:
  "map dedup_key (orderProducts (add_all show_num read_num [gift 50, gift 100, gift 50, mug_red] acme_state)) =
     [(Some ''GIFT'', Fixed False 500), (Some ''GIFT'', Fixed False 1000),
      (Some ''MUG-RED'', FixedNaN)] \<and>
   distinct (map dedup_key
     (orderProducts (add_all show_num read_num [gift 50, gift 100, gift 50, mug_red] acme_state)))"
proof -
  have s: "list_all key_stable [gift 50, gift 100, gift 50, mug_red]"
    by (simp add: key_stable_def examples js_ops)
  have d: "distinct (map dedup_key (orderProducts acme_state))"
    by (simp add: examples)
  have "distinct (map dedup_key
     (orderProducts (add_all show_num read_num [gift 50, gift 100, gift 50, mug_red] acme_state)))"
    using addProduct_no_duplicates [OF d, of "[gift 50, gift 100, gift 50, mug_red]" show_num read_num] s
    by (simp add: list_all_iff)
  moreover have "map dedup_key (orderProducts (add_all show_num read_num [gift 50, gift 100, gift 50, mug_red] acme_state)) =
     [(Some ''GIFT'', Fixed False 500), (Some ''GIFT'', Fixed False 1000),
      (Some ''MUG-RED'', FixedNaN)]"
    by (simp add: addProduct_def newProduct_def same_line_def updateSubtotal_sel dedup_key_def
        examples js_ops)
  ultimately show ?thesis by simp
qed

text \<open>
  The second copy of \<^verbatim>\<open>addProduct\<close> compares the sku alone: whenever a run of selections
  and additions ends without an exception, the skus of the lines are pairwise
  different.
\<close>

theorem addProduct2_no_duplicates:
  assumes "distinct (map sku (orderProducts st))" and "add_all2 ps st = Inr st'"
  shows "distinct (map sku (orderProducts st'))"
  using assms
proof (induction ps arbitrary: st)
  case Nil
  then show ?case by simp
next
  case (Cons p ps)
  from Cons.prems(2) obtain st1 where
    st1: "addProduct2 (st\<lparr>selectedProduct := Some p\<rparr>) = Inr st1" "add_all2 ps st1 = Inr st'"
    by (auto split: sum.splits)
  from addProduct2_keeps_distinct [OF Cons.prems(1) st1(1)] Cons.IH st1(2)
  show ?case by blast
qed

theorem addProduct2_no_duplicates_witness:
  "map_sum id (\<lambda>st. map sku (orderProducts st))
     (add_all2 [gift 50, gift 100, mug_red] acme_state) =
     Inr [Some ''GIFT'', Some ''MUG-RED''] \<and>
   distinct [Some ''GIFT'', Some ''MUG-RED'']"
proof -
  have e: "map_sum id (\<lambda>st. map sku (orderProducts st))
     (add_all2 [gift 50, gift 100, mug_red] acme_state) = Inr [Some ''GIFT'', Some ''MUG-RED'']"
    by (simp add: addProduct2_def newProduct2_def updateSubtotal_sel examples js_ops)
  then obtain st' where st': "add_all2 [gift 50, gift 100, mug_red] acme_state = Inr st'"
      "map sku (orderProducts st') = [Some ''GIFT'', Some ''MUG-RED'']"
    by (cases "add_all2 [gift 50, gift 100, mug_red] acme_state") auto
  have d: "distinct (map sku (orderProducts acme_state))" by (simp add: examples)
  from addProduct2_no_duplicates [OF d st'(1)] st'(2) e show ?thesis by simp
qed

section \<open>The import merges the rows of the file into an order of different skus\<close>

text \<open>
  When the lines of the order have pairwise different skus and the import goes through
  without an alert, the new order is the old one merged with the file row by row as
  \<open>merge_spec\<close> says: rows whose sku is not in the supplier's product list are
  ignored; a row whose sku a line of the order being built has replaces the quantity of
  that line and nothing else of it; any other row is appended as a new line. In
  particular every line whose sku no accepted row has is still at its place, unchanged.
\<close>

theorem import_merges_rows:
  assumes "distinct (map sku (orderProducts st))"
    and "alerts (importOrderProducts (Some ps) data st) = []"
  shows "orderProducts (after (importOrderProducts (Some ps) data st)) =
           merge_spec ps data (orderProducts st) \<and>
         (\<forall>i<length (orderProducts st).
            sku (orderProducts st ! i) \<notin> set (map sku (filter (in_supplier_list ps) data)) \<longrightarrow>
            orderProducts (after (importOrderProducts (Some ps) data st)) ! i =
              orderProducts st ! i)"
proof -
  have eq: "orderProducts (after (importOrderProducts (Some ps) data st)) =
           merge_spec ps data (orderProducts st)"
    using import_after_lines [OF assms(2)] import_merge_spec [OF assms(1)]
    by (auto simp: merge_spec_Nil)
  show ?thesis
    using fold_merge_spec_row_nth [of _ "orderProducts st" "filter (in_supplier_list ps) data"]
    by (simp add: eq merge_spec_def)
qed

theorem import_merges_rows_witness:
  "distinct (map sku (orderProducts two_mugs)) \<and>
   alerts (importOrderProducts (Some catalogue) mixed_file two_mugs) = [] \<and>
   map (\<lambda>l. (sku l, quantity l))
     (orderProducts (after (importOrderProducts (Some catalogue) mixed_file two_mugs))) =
     [(Some ''MUG-RED'', Num 5), (Some ''MUG-BLUE'', Num 1), (Some ''MUG-GREEN'', Num 2)] \<and>
   orderProducts (after (importOrderProducts (Some catalogue) mixed_file two_mugs)) ! 1 =
     orderProducts two_mugs ! 1"
proof -
  have d: "distinct (map sku (orderProducts two_mugs))"
    by (simp add: two_mugs_eval newProduct_def examples)
  have a: "alerts (importOrderProducts (Some catalogue) mixed_file two_mugs) = []"
    by (simp add: importOrderProducts_def two_mugs_vars mixed_file_def examples)
  note inst = import_merges_rows [OF d a]
  have merged: "map (\<lambda>l. (sku l, quantity l)) (merge_spec catalogue mixed_file (orderProducts two_mugs)) =
     [(Some ''MUG-RED'', Num 5), (Some ''MUG-BLUE'', Num 1), (Some ''MUG-GREEN'', Num 2)]"
    by (simp add: merge_spec_def merge_spec_row_def in_supplier_list_def catalogue_def
        mixed_file_def two_mugs_eval newProduct_def examples)
  have untouched: "sku (orderProducts two_mugs ! 1) \<notin>
      set (map sku (filter (in_supplier_list catalogue) mixed_file))"
    by (simp add: in_supplier_list_def catalogue_def mixed_file_def two_mugs_eval newProduct_def
        examples)
  have "orderProducts (after (importOrderProducts (Some catalogue) mixed_file two_mugs)) ! 1 =
     orderProducts two_mugs ! 1"
    using conjunct2 [OF inst, THEN spec, of 1] untouched by (simp add: two_mugs_eval)
  then show ?thesis using d a merged conjunct1 [OF inst] by simp
qed

end
